theory Spec2Isabelle
  imports Complex_Main "HOL-Library.Word" "HOL-Library.List_Lexorder" "HOL-Library.Char_ord"
begin

section \<open>Python values shared by the three modules\<close>

text \<open>
  Every exception the modelled code can raise is a constructor; the string is the fixed
  part of the message (or, for \<open>NameError\<close>, the name that is not defined).
\<close>

datatype error =
    TypeError string
  | ValueError string
  | IndexError string
  | NameError string
  | KeyError string
  | AttributeError string
  | AssertionError string
  | OverflowError string
  | ZeroDivisionError string
  | NotImplementedError

text \<open>Sequencing of a computation that may raise: the first exception propagates.\<close>

definition bind_err :: "error + 'a \<Rightarrow> ('a \<Rightarrow> error + 'b) \<Rightarrow> error + 'b" where
  "bind_err m f = (case m of Inl e \<Rightarrow> Inl e | Inr v \<Rightarrow> f v)"

section \<open>oamap/schema.py: the schema tree and the concrete type it derives\<close>

text \<open>
  A schema without an identity cycle is a tree. Each node holds the attributes its
  constructor sets: for a Primitive \<open>dtype\<close>, \<open>dims\<close>, \<open>nullable\<close>, \<open>data\<close>, \<open>mask\<close>, \<open>name\<close>;
  for a List \<open>content\<close>, \<open>nullable\<close>, \<open>starts\<close>, \<open>stops\<close>, \<open>mask\<close>, \<open>name\<close>; for a
  Union \<open>possibilities\<close>, \<open>nullable\<close>, \<open>tags\<close>, \<open>offsets\<close>, \<open>mask\<close>, \<open>name\<close>; for a Record
  \<open>fields\<close> (the items of the ordered dict), \<open>nullable\<close>, \<open>mask\<close>, \<open>name\<close>; for a Tuple
  \<open>items\<close>, \<open>nullable\<close>, \<open>mask\<close>, \<open>name\<close>; for a Pointer \<open>target\<close>, \<open>nullable\<close>,
  \<open>positions\<close>, \<open>mask\<close>, \<open>name\<close>. An array name that is None is derived from the prefix.
\<close>

datatype schema =
    Primitive string "nat list" bool "string option" "string option" "string option"
  | List schema bool "string option" "string option" "string option" "string option"
  | UnionS "schema list" bool "string option" "string option" "string option" "string option"
  | Record "(string \<times> schema) list" bool "string option" "string option"
  | Tuple "schema list" bool "string option" "string option"
  | Pointer schema bool "string option" "string option" "string option"









text \<open>
  The place of an array in such a tree: the steps from the root to the node that owns it
  (to the content of a List, or to a field of a Record, whichever field it is) and the
  role of the array at that node. \<open>places\<close> lists the arrays of a tree in the order of
  \<open>array_names\<close>; a field named \<open>_fields\<close> has no property in the derived class and so
  no arrays.
\<close>

datatype step = Content | Field







subsection \<open>Construction and mutation of Union and Tuple\<close>

text \<open>
  A Python object handed to a constructor or mutator: a Schema, an iterable of objects, or
  anything else (by its repr).
\<close>

datatype pyvalue = SchemaValue schema | IterableValue "pyvalue list" | OtherValue string

text \<open>
  The global names a method of \<open>oamap/schema.py\<close> can read: the module's own and those
  imported with \<open>from oamap.proxy import *\<close>. A name that is neither local nor global is a
  NameError.
\<close>

type_synonym globals = "string \<rightharpoonup> pyvalue"

definition load_global :: "globals \<Rightarrow> string \<Rightarrow> error + pyvalue" where
  "load_global g n = (case g n of None \<Rightarrow> Inl (NameError n) | Some v \<Rightarrow> Inr v)"

text \<open>
  The loop \<open>for i, x in enumerate(...): assert isinstance(x, Schema), ...;
  trial.append(x)\<close>; the AssertionError of the first element that is no Schema is raised
  again as TypeError.
\<close>

fun check_schemas :: "pyvalue list \<Rightarrow> error + schema list" where
  "check_schemas [] = Inr []"
| "check_schemas (SchemaValue s # xs) = bind_err (check_schemas xs) (\<lambda>trial. Inr (s # trial))"
| "check_schemas (x # xs) = Inl (TypeError ''must be an iterable of Schemas; an item is not a Schema'')"

text \<open>
  \<open>Union._extend(self, possibilities, start)\<close> and \<open>Tuple._extend(self, items, start)\<close>: the
  loop iterates \<open>value\<close>, which is no parameter and no local variable of the method, so it
  is read as a global; the parameter itself is not used. NameError is caught by neither
  \<open>except\<close> clause. The result is the new \<open>self._possibilities\<close> (\<open>self._items\<close>).
\<close>

definition Union_extend_start :: "globals \<Rightarrow> pyvalue \<Rightarrow> schema list \<Rightarrow> error + schema list" where
  "Union_extend_start g s_possibilities start =
     bind_err (load_global g ''value'') (\<lambda>v.
       case v of
         IterableValue xs \<Rightarrow> bind_err (check_schemas xs) (\<lambda>trial. Inr (start @ trial))
       | _ \<Rightarrow> Inl (TypeError ''possibilities must be an iterable of Schemas''))"

definition Tuple_extend_start :: "globals \<Rightarrow> pyvalue \<Rightarrow> schema list \<Rightarrow> error + schema list" where
  "Tuple_extend_start g s_items start =
     bind_err (load_global g ''value'') (\<lambda>v.
       case v of
         IterableValue xs \<Rightarrow> bind_err (check_schemas xs) (\<lambda>trial. Inr (start @ trial))
       | _ \<Rightarrow> Inl (TypeError ''items must be an iterable of Schemas''))"

text \<open>
  \<open>Union.__init__\<close> and \<open>Tuple.__init__\<close>: the first assignment runs the setter, which calls
  \<open>self._extend(value, [])\<close>; the other attributes are set after it.
\<close>

definition Union_init ::
  "globals \<Rightarrow> pyvalue \<Rightarrow> bool \<Rightarrow> string option \<Rightarrow> string option \<Rightarrow> string option \<Rightarrow>
   string option \<Rightarrow> error + schema" where
  "Union_init g s_possibilities nullable s_tags s_offsets s_mask s_name =
     bind_err (Union_extend_start g s_possibilities []) (\<lambda>ps.
       Inr (UnionS ps nullable s_tags s_offsets s_mask s_name))"

definition Tuple_init ::
  "globals \<Rightarrow> pyvalue \<Rightarrow> bool \<Rightarrow> string option \<Rightarrow> string option \<Rightarrow> error + schema" where
  "Tuple_init g s_items nullable s_mask s_name =
     bind_err (Tuple_extend_start g s_items []) (\<lambda>ts. Inr (Tuple ts nullable s_mask s_name))"

text \<open>
  \<open>Union.extend\<close> and \<open>Tuple.extend\<close> on an object whose list is \<open>self_list\<close>:
  \<open>self._extend(possibilities, self._possibilities)\<close>.
\<close>

definition Union_extend :: "globals \<Rightarrow> schema list \<Rightarrow> pyvalue \<Rightarrow> error + schema list" where
  "Union_extend g self_list s_possibilities = Union_extend_start g s_possibilities self_list"

definition Tuple_extend :: "globals \<Rightarrow> schema list \<Rightarrow> pyvalue \<Rightarrow> error + schema list" where
  "Tuple_extend g self_list s_items = Tuple_extend_start g s_items self_list"

text \<open>\<open>lst[index] = v\<close> on a Python list.\<close>

definition list_setitem :: "'a list \<Rightarrow> int \<Rightarrow> 'a \<Rightarrow> error + 'a list" where
  "list_setitem xs i v =
     (let n = int (length xs); j = (if i < 0 then i + n else i)
      in if 0 \<le> j \<and> j < n then Inr (xs [nat j := v])
         else Inl (IndexError ''list assignment index out of range''))"

text \<open>
  \<open>Tuple.__setitem__(self, index, value)\<close> tests \<open>isinstance(item, Schema)\<close>, where \<open>item\<close>
  is no parameter and no local variable, and then stores \<open>value\<close> as it is (so the list
  is one of objects here); \<open>Union.__setitem__\<close> tests its parameter.
\<close>

definition Tuple_setitem ::
  "globals \<Rightarrow> pyvalue list \<Rightarrow> int \<Rightarrow> pyvalue \<Rightarrow> error + pyvalue list" where
  "Tuple_setitem g self_items i v =
     bind_err (load_global g ''item'') (\<lambda>item.
       case item of
         SchemaValue s \<Rightarrow> list_setitem self_items i v
       | _ \<Rightarrow> Inl (TypeError ''items must be Schemas''))"

definition Union_setitem :: "schema list \<Rightarrow> int \<Rightarrow> pyvalue \<Rightarrow> error + schema list" where
  "Union_setitem self_list i v =
     (case v of
        SchemaValue s \<Rightarrow> list_setitem self_list i s
      | _ \<Rightarrow> Inl (TypeError ''possibilities must be Schemas''))"

text \<open>
  The names \<open>oamap/schema.py\<close> binds at module level, and those of \<open>oamap.proxy\<close> its
  code refers to.
\<close>

definition schema_module_globals :: globals where
  "schema_module_globals =
     map_of (map (\<lambda>n. (n, OtherValue n))
       [''re'', ''sys'', ''numbers'', ''MethodType'', ''OrderedDict'', ''numpy'', ''basestring'',
        ''Schema'', ''Primitive'', ''List'', ''Union'', ''Record'', ''Tuple'', ''Pointer'',
        ''PrimitiveType'', ''MaskedPrimitiveType'', ''AnonymousListProxy'', ''ListProxy'',
        ''ListType'', ''MaskedListType'', ''UnionType'', ''MaskedUnionType'', ''RecordProxy'',
        ''RecordType'', ''MaskedRecordType'', ''AnonymousTupleProxy'', ''TupleProxy'',
        ''TupleType'', ''MaskedTupleType'', ''PointerType''])"

section \<open>oamap/schema.py: printing a schema that may contain identity cycles\<close>

text \<open>
  A schema that can refer back to itself is a store of nodes: a node is known by its
  identity \<open>id(self)\<close>, and a child is the identity of the child node. The attributes
  printed by \<open>__repr__\<close> are kept: for a Primitive \<open>repr(dtype)\<close>, \<open>repr(dims)\<close> when dims
  is not \<open>()\<close>, \<open>nullable\<close>, \<open>data\<close>, \<open>mask\<close>; for the others the children, \<open>nullable\<close> and
  the array names.
\<close>

datatype node =
    PrimitiveNode string "string option" bool "string option" "string option"
  | ListNode nat bool "string option" "string option" "string option"
  | UnionNode "nat list" bool "string option" "string option" "string option"
  | RecordNode "(string \<times> nat) list" bool "string option"
  | TupleNode "nat list" bool "string option"
  | PointerNode nat bool "string option" "string option"

type_synonym store = "nat \<Rightarrow> node"

text \<open>
  A computation that may recurse without end takes fuel, one unit per nested method call:
  \<open>None\<close> is "the fuel ran out", \<open>Some (Inl e)\<close> an exception, \<open>Some (Inr v)\<close> a result.
\<close>

type_synonym 'a res = "(error + 'a) option"

definition bind_res :: "'a res \<Rightarrow> ('a \<Rightarrow> 'b res) \<Rightarrow> 'b res" where
  "bind_res m f = (case m of None \<Rightarrow> None | Some (Inl e) \<Rightarrow> Some (Inl e) | Some (Inr v) \<Rightarrow> f v)"

text \<open>A loop over a list whose body updates a state; a comprehension that does so.\<close>

fun for_each :: "('a \<Rightarrow> 's \<Rightarrow> 's res) \<Rightarrow> 'a list \<Rightarrow> 's \<Rightarrow> 's res" where
  "for_each f [] st = Some (Inr st)"
| "for_each f (x # xs) st = bind_res (f x st) (\<lambda>st1. for_each f xs st1)"

fun collect_each :: "('a \<Rightarrow> 's \<Rightarrow> ('b \<times> 's) res) \<Rightarrow> 'a list \<Rightarrow> 's \<Rightarrow> ('b list \<times> 's) res" where
  "collect_each f [] st = Some (Inr ([], st))"
| "collect_each f (x # xs) st =
     bind_res (f x st) (\<lambda>(r, st1).
     bind_res (collect_each f xs st1) (\<lambda>(rs, st2). Some (Inr (r # rs, st2))))"

text \<open>The children \<open>_collect\<close> descends into, in its order.\<close>

fun children :: "node \<Rightarrow> nat list" where
  "children (PrimitiveNode dt dm nullable s_data s_mask) = []"
| "children (ListNode c nullable s_starts s_stops s_mask) = [c]"
| "children (UnionNode ps nullable s_tags s_offsets s_mask) = ps"
| "children (RecordNode fs nullable s_mask) = map snd fs"
| "children (TupleNode ts nullable s_mask) = ts"
| "children (PointerNode t nullable s_positions s_mask) = [t]"

text \<open>
  \<open>_collect(self, collection, labels)\<close>: the state is the set \<open>collection\<close> of identities
  seen and the list \<open>labels\<close> of nodes met again.
\<close>

fun collect :: "nat \<Rightarrow> store \<Rightarrow> nat \<Rightarrow> nat set \<times> nat list \<Rightarrow> (nat set \<times> nat list) res" where
  "collect 0 h i st = None"
| "collect (Suc n) h i st =
     (case st of (collection, labels) \<Rightarrow>
        if i \<notin> collection
        then for_each (\<lambda>c st1. collect n h c st1) (children (h i)) (insert i collection, labels)
        else Some (Inr (collection, labels @ [i])))"

text \<open>\<open>_labels(self)\<close>\<close>

definition labels_of :: "nat \<Rightarrow> store \<Rightarrow> nat \<Rightarrow> nat list res" where
  "labels_of n h i = bind_res (collect n h i ({}, [])) (\<lambda>(collection, labels). Some (Inr labels))"

text \<open>The decimal digits of a number, for \<open>"#{0}".format(index)\<close>.\<close>

fun str_nat :: "nat \<Rightarrow> string" where
  "str_nat n =
     (if n < 10 then [char_of (48 + n)] else str_nat (n div 10) @ [char_of (48 + n mod 10)])"

declare str_nat.simps [simp del]

text \<open>\<open>_label(self, labels)\<close>: the index of the first entry that is this node, or None.\<close>

fun first_index :: "nat list \<Rightarrow> nat \<Rightarrow> nat \<Rightarrow> nat option" where
  "first_index [] i k = None"
| "first_index (l # ls) i k = (if l = i then Some k else first_index ls i (Suc k))"

definition label_of :: "nat list \<Rightarrow> nat \<Rightarrow> string option" where
  "label_of labels i = map_option (\<lambda>k. ''#'' @ str_nat k) (first_index labels i 0)"

text \<open>\<open>", ".join(args)\<close>: an item that is None is a TypeError.\<close>

fun intercalate :: "string list \<Rightarrow> string" where
  "intercalate [] = []"
| "intercalate [s] = s"
| "intercalate (s # t # ss) = s @ '', '' @ intercalate (t # ss)"

definition join_args :: "string option list \<Rightarrow> string res" where
  "join_args args =
     (case those args of
        None \<Rightarrow> Some (Inl (TypeError ''sequence item: expected string, NoneType found''))
      | Some ss \<Rightarrow> Some (Inr (intercalate ss)))"

text \<open>The arguments printed after the children: \<open>name=repr(x)\<close> for what is set.\<close>

definition repr_str :: "string \<Rightarrow> string" where
  "repr_str s = [CHR 0x27] @ s @ [CHR 0x27]"

definition keyword :: "string \<Rightarrow> string option \<Rightarrow> string option list" where
  "keyword k v = (case v of None \<Rightarrow> [] | Some s \<Rightarrow> [Some (k @ ''='' @ repr_str s)])"

definition keyword_nullable :: "bool \<Rightarrow> string option list" where
  "keyword_nullable nullable = (if nullable then [Some ''nullable=True''] else [])"

text \<open>
  The two ways the methods end when the node is printed in full: \<open>label + ": Kind(..."\<close>
  in Primitive, List, Union and Record, \<open>label + "Kind(..."\<close> in Tuple and Pointer.
\<close>

definition labelled :: "string option \<Rightarrow> string \<Rightarrow> string \<Rightarrow> string" where
  "labelled label sep body = (case label of None \<Rightarrow> body | Some l \<Rightarrow> l @ sep @ body)"

text \<open>
  \<open>__repr__(self, labels=None, shown=None)\<close> of the six classes; \<open>ls\<close> is None or the pair
  \<open>(labels, shown)\<close>. The result is the returned object (None when the method ends without
  a return statement) and the set \<open>shown\<close> as the call leaves it. List, Union, Tuple and
  Pointer pass \<open>labels\<close> and \<open>shown\<close> on to their children; Record prints a field with the
  built-in \<open>repr(x)\<close>, which calls \<open>x.__repr__()\<close> without them and wants a string back.
  Tuple has no branch for a node that was shown before.
\<close>

fun repr_node ::
  "nat \<Rightarrow> store \<Rightarrow> nat \<Rightarrow> (nat list \<times> nat set) option \<Rightarrow> (string option \<times> nat set) res" where
  "repr_node 0 h i ls = None"
| "repr_node (Suc n) h i ls =
     bind_res
       (case ls of
          None \<Rightarrow> bind_res (labels_of n h i) (\<lambda>labels. Some (Inr (labels, {})))
        | Some given \<Rightarrow> Some (Inr given))
       (\<lambda>(labels, shown).
          let label = label_of labels i in
          if label = None \<or> i \<notin> shown then
            (case h i of
               PrimitiveNode dt dm nullable s_data s_mask \<Rightarrow>
                 bind_res (join_args ([Some dt] @ keyword ''dims'' dm @ keyword_nullable nullable @
                             keyword ''data'' s_data @ keyword ''mask'' s_mask)) (\<lambda>args.
                   Some (Inr (Some (labelled label '': '' (''Primitive('' @ args @ '')'')),
                              insert i shown)))
             | ListNode c nullable s_starts s_stops s_mask \<Rightarrow>
                 bind_res (repr_node n h c (Some (labels, insert i shown))) (\<lambda>(r, shown1).
                 bind_res (join_args ([r] @ keyword_nullable nullable @ keyword ''starts'' s_starts @
                             keyword ''stops'' s_stops @ keyword ''mask'' s_mask)) (\<lambda>args.
                   Some (Inr (Some (labelled label '': '' (''List('' @ args @ '')'')), shown1))))
             | UnionNode ps nullable s_tags s_offsets s_mask \<Rightarrow>
                 bind_res (collect_each (\<lambda>x shown1. repr_node n h x (Some (labels, shown1))) ps
                             (insert i shown)) (\<lambda>(rs, shown1).
                 bind_res (join_args rs) (\<lambda>inner.
                 bind_res (join_args ([Some (''['' @ inner @ '']'')] @ keyword_nullable nullable @
                             keyword ''tags'' s_tags @ keyword ''offsets'' s_offsets @
                             keyword ''mask'' s_mask)) (\<lambda>args.
                   Some (Inr (Some (labelled label '': '' (''Union('' @ args @ '')'')), shown1)))))
             | RecordNode fs nullable s_mask \<Rightarrow>
                 bind_res (collect_each
                             (\<lambda>(k, x) u.
                                bind_res (repr_node n h x None) (\<lambda>(r, shown1).
                                  case r of
                                    None \<Rightarrow> Some (Inl (TypeError ''__repr__ returned non-string''))
                                  | Some s \<Rightarrow> Some (Inr (Some (repr_str k @ '': '' @ s), u))))
                             fs ()) (\<lambda>(rs, u).
                 bind_res (join_args rs) (\<lambda>inner.
                 bind_res (join_args ([Some (''{'' @ inner @ ''}'')] @ keyword_nullable nullable @
                             keyword ''mask'' s_mask)) (\<lambda>args.
                   Some (Inr (Some (labelled label '': '' (''Record('' @ args @ '')'')),
                              insert i shown)))))
             | TupleNode ts nullable s_mask \<Rightarrow>
                 bind_res (collect_each (\<lambda>x shown1. repr_node n h x (Some (labels, shown1))) ts
                             (insert i shown)) (\<lambda>(rs, shown1).
                 bind_res (join_args rs) (\<lambda>inner.
                 bind_res (join_args ([Some (''['' @ inner @ '']'')] @ keyword_nullable nullable @
                             keyword ''mask'' s_mask)) (\<lambda>args.
                   Some (Inr (Some (labelled label [] (''Tuple('' @ args @ '')'')), shown1)))))
             | PointerNode t nullable s_positions s_mask \<Rightarrow>
                 bind_res (repr_node n h t (Some (labels, insert i shown))) (\<lambda>(r, shown1).
                 bind_res (join_args ([r] @ keyword_nullable nullable @
                             keyword ''positions'' s_positions @ keyword ''mask'' s_mask)) (\<lambda>args.
                   Some (Inr (Some (labelled label [] (''Pointer('' @ args @ '')'')), shown1)))))
          else
            (case h i of
               TupleNode ts nullable s_mask \<Rightarrow> Some (Inr (None, shown))
             | _ \<Rightarrow> Some (Inr (label, shown))))"

text \<open>\<open>repr(schema)\<close> with \<open>fuel\<close> nested calls at most: the text, or a TypeError.\<close>

definition repr_schema :: "nat \<Rightarrow> store \<Rightarrow> nat \<Rightarrow> string res" where
  "repr_schema fuel h i =
     bind_res (repr_node fuel h i None) (\<lambda>(r, shown).
       case r of
         None \<Rightarrow> Some (Inl (TypeError ''__repr__ returned non-string''))
       | Some s \<Rightarrow> Some (Inr s))"

text \<open>
  Three schemas with a cycle: a Record whose field \<open>a\<close> is a List of the Record itself, a
  List whose content is the List itself, and a Tuple whose item is a List of the Tuple.
\<close>

definition record_cycle :: store where
  "record_cycle i =
     (if i = 0 then RecordNode [(''a'', 1)] False None else ListNode 0 False None None None)"

definition list_cycle :: store where
  "list_cycle i = ListNode 0 False None None None"

definition tuple_cycle :: store where
  "tuple_cycle i =
     (if i = 0 then TupleNode [1] False None else ListNode 0 False None None None)"

section \<open>oamap/dataset.py: Dataset\<close>

subsection \<open>numpy operations the Dataset uses\<close>

text \<open>
  \<open>a[i]\<close> on a one-dimensional array: a negative index counts from the end, an index
  out of range raises IndexError.
\<close>

definition np_getitem :: "'a list \<Rightarrow> int \<Rightarrow> error + 'a" where
  "np_getitem a i =
     (let n = int (length a); j = (if i < 0 then i + n else i)
      in if 0 \<le> j \<and> j < n then Inr (a ! nat j)
         else Inl (IndexError ''index is out of bounds''))"

text \<open>
  \<open>numpy.searchsorted(a, v, side="right")\<close>, numpy's binary search for the insertion
  point of \<open>v\<close> after the entries equal to it: the loop keeps \<open>lo \<le> hi\<close> and halves
  the interval, moving \<open>lo\<close> past the midpoint when \<open>a[mid] \<le> v\<close>.
\<close>

function searchsorted_loop :: "int list \<Rightarrow> int \<Rightarrow> nat \<Rightarrow> nat \<Rightarrow> nat" where
  "searchsorted_loop a v lo hi =
     (if lo < hi then
        (let mid = lo + (hi - lo) div 2
         in if a ! mid \<le> v then searchsorted_loop a v (mid + 1) hi
            else searchsorted_loop a v lo mid)
      else lo)"
  by pat_completeness auto
termination
  by (relation "measure (\<lambda>(a, v, lo, hi). hi - lo)") auto

declare searchsorted_loop.simps [simp del]

definition searchsorted_right :: "int list \<Rightarrow> int \<Rightarrow> int" where
  "searchsorted_right a v = int (searchsorted_loop a v 0 (length a))"

subsection \<open>The Dataset object and its array sets\<close>

text \<open>
  A role names one array of one namespace (\<open>oamap.generator.StartsRole\<close>,
  \<open>StopsRole\<close> and the others; \<open>str(role)\<close> is its array name). The generator module is
  not among the sources, so a role is the data the Dataset code reads from it.
\<close>

datatype role_kind = StartsRole | StopsRole | DataRole | MaskRole | OtherRole

record role =
  role_kind :: role_kind
  role_name :: string
  role_namespace :: string

text \<open>
  \<open>DatasetArrays.__init__\<close> (with the fields of \<open>DataArrays.__init__\<close>): the partition,
  the two roles of the root list, the partition's entry count, the backends by namespace
  and the connections already opened (\<open>_active\<close>, where a namespace that maps to
  None is one without a connection).
\<close>

record ('b, 'c) dataset_arrays =
  da_backends :: "(string \<times> 'b) list"
  da_active :: "string \<rightharpoonup> 'c"
  da_partitionid :: int
  da_startsrole :: role
  da_stopsrole :: role
  da_numentries :: int

text \<open>
  The proxy \<open>Dataset.__getitem__\<close> expects from \<open>partition\<close>, by the fields it assigns:
  the array set and the window \<open>_whence\<close>, \<open>_stride\<close>, \<open>_length\<close>.
\<close>

record ('b, 'c) list_proxy =
  px_arrays :: "('b, 'c) dataset_arrays"
  px_whence :: int
  px_stride :: int
  px_length :: int

text \<open>
  A constructed Dataset, by the fields that \<open>Data.__init__\<close> and \<open>Dataset.__init__\<close> set
  and the methods below read: \<open>_schema\<close> (a List of \<open>oamap/schema.py\<close>, \<open>__init__\<close>
  admits nothing else), \<open>_backends\<close>, \<open>_prefix\<close>, \<open>_delimiter\<close> and \<open>_offsets\<close> (an
  int64 array).
\<close>

record ('b, 'c) dataset =
  ds_schema :: schema
  ds_backends :: "(string \<times> 'b) list"
  ds_prefix :: string
  ds_delimiter :: string
  ds_offsets :: "int list"

definition numpartitions :: "('b, 'c) dataset \<Rightarrow> int" where
  "numpartitions ds = int (length (ds_offsets ds)) - 1"

text \<open>\<open>int(self._offsets[-1])\<close>; a constructed Dataset has at least two offsets.\<close>

definition numentries :: "('b, 'c) dataset \<Rightarrow> int" where
  "numentries ds = last (ds_offsets ds)"

text \<open>
  \<open>Dataset.arrays(partitionid)\<close>. After the check of the partition id the method builds
  the role of the starts array from \<open>self._schema._get_starts(self._prefix,
  self._delimiter)\<close> and \<open>self._schema.namespace\<close>. The schema is a List of
  \<open>oamap/schema.py\<close>, and neither List nor its base class Schema defines \<open>_get_starts\<close>,
  \<open>_get_stops\<close> or \<open>namespace\<close> (a List has the attributes its constructor sets,
  \<open>content\<close>, \<open>starts\<close>, \<open>stops\<close>, \<open>nullable\<close>, \<open>mask\<close>, \<open>name\<close>, and the methods
  \<open>__repr__\<close>, \<open>_collect\<close>, \<open>__call__\<close>, \<open>_labels\<close>, \<open>_label\<close>; no class has a
  \<open>__getattr__\<close>): reading \<open>_get_starts\<close> raises AttributeError, and the statements
  that would build the \<open>DatasetArrays\<close> are never reached.
\<close>

definition arrays :: "('b, 'c) dataset \<Rightarrow> int \<Rightarrow> error + ('b, 'c) dataset_arrays" where
  "arrays ds partitionid =
     (let normid = (if partitionid \<ge> 0 then partitionid else partitionid + numpartitions ds)
      in if \<not> (0 \<le> normid \<and> normid < numpartitions ds)
         then Inl (IndexError ''partitionid out of range'')
         else Inl (AttributeError ''_get_starts''))"

text \<open>
  \<open>Dataset.partition(partitionid)\<close> is \<open>self._schema(self.arrays(partitionid))\<close>. The
  call runs \<open>List.__call__(self, prefix, delimiter)\<close> with the array set as \<open>prefix\<close>;
  every path of that method evaluates \<open>prefix + delimiter + ...\<close> (for the name of the
  starts array, of the stops array, or for the prefix of the content), which is a
  TypeError for an array set: \<open>DataArrays\<close> defines no addition.
\<close>

definition partition_of :: "('b, 'c) dataset \<Rightarrow> int \<Rightarrow> error + ('b, 'c) list_proxy" where
  "partition_of ds partitionid =
     bind_err (arrays ds partitionid) (\<lambda>a :: ('b, 'c) dataset_arrays.
       Inl (TypeError ''unsupported operand type(s) for +''))"

text \<open>
  The index of \<open>__getitem__\<close>: an integer, a slice (each of start, stop and step may be
  None), or any other object.
\<close>

datatype index = IntIndex int | SliceIndex "int option" "int option" "int option" | OtherIndex string

text \<open>
  What \<open>__getitem__\<close> returns: the element \<open>proxy[localindex]\<close> of a partition's proxy,
  a windowed proxy, or None.
\<close>

datatype ('b, 'c) getitem_result =
    Element "('b, 'c) list_proxy" int
  | Window "('b, 'c) list_proxy"
  | PyNone

definition getitem_int :: "('b, 'c) dataset \<Rightarrow> int \<Rightarrow> error + ('b, 'c) getitem_result" where
  "getitem_int ds i =
     (let normindex = (if i \<ge> 0 then i else i + numentries ds)
      in if \<not> (0 \<le> normindex \<and> normindex < numentries ds)
         then Inl (IndexError ''index out of range'')
         else
           (let partitionid = searchsorted_right (ds_offsets ds) normindex - 1
            in bind_err (np_getitem (ds_offsets ds) partitionid) (\<lambda>off.
               bind_err (partition_of ds partitionid) (\<lambda>p.
                 Inr (Element p (normindex - off))))))"

text \<open>
  The slice branch after \<open>oamap.util.slice2sss\<close> has resolved the slice to
  \<open>(start, stop, step)\<close>. \<open>divmod\<close> by a zero step raises.
\<close>

definition getitem_sss ::
  "('b, 'c) dataset \<Rightarrow> int \<times> int \<times> int \<Rightarrow> error + ('b, 'c) getitem_result" where
  "getitem_sss ds sss =
     (case sss of (start, stop, step) \<Rightarrow>
        (let partitionid =
               max 0 (min (searchsorted_right (ds_offsets ds) start - 1) (numpartitions ds - 1))
         in bind_err (np_getitem (ds_offsets ds) partitionid) (\<lambda>off.
            let localstart = start - off; localstop = stop - off
            in bind_err (np_getitem (ds_offsets ds) (partitionid + 1)) (\<lambda>nxt.
               if localstop < -1 \<or> localstop > nxt - off
               then Inl (IndexError ''slice spans multiple partitions'')
               else
                 bind_err (partition_of ds partitionid) (\<lambda>out.
                   if step = 0 then Inl (ZeroDivisionError ''integer division or modulo by zero'')
                   else
                     (let d = \<bar>localstart - localstop\<bar> div \<bar>step\<bar>;
                          m = \<bar>localstart - localstop\<bar> mod \<bar>step\<bar>
                      in Inr (Window (out \<lparr> px_whence := localstart, px_stride := step,
                                               px_length := d + (if m \<noteq> 0 then 1 else 0) \<rparr>))))))))"

text \<open>
  \<open>Dataset.__getitem__\<close>. The helper \<open>oamap.util.slice2sss\<close> is not among the sources:
  it is the parameter \<open>slice2sss\<close>, called with the slice and \<open>numentries\<close>. An index that
  is neither an integer nor a slice matches no branch, and the method ends without a
  return statement.
\<close>

definition getitem ::
  "(int option \<times> int option \<times> int option \<Rightarrow> int \<Rightarrow> error + int \<times> int \<times> int) \<Rightarrow>
   ('b, 'c) dataset \<Rightarrow> index \<Rightarrow> error + ('b, 'c) getitem_result" where
  "getitem slice2sss ds idx =
     (case idx of
        IntIndex i \<Rightarrow> getitem_int ds i
      | SliceIndex a b c \<Rightarrow>
          bind_err (slice2sss (a, b, c) (numentries ds)) (\<lambda>sss. getitem_sss ds sss)
      | OtherIndex x \<Rightarrow> Inr PyNone)"

text \<open>
  The invariant \<open>Dataset.__init__\<close> establishes for \<open>_offsets\<close>: at least two entries,
  the first one zero, never decreasing.
\<close>

definition valid_offsets :: "('a :: {zero, linorder}) list \<Rightarrow> bool" where
  "valid_offsets offs = (2 \<le> length offs \<and> offs ! 0 = 0 \<and> sorted offs)"

text \<open>
  Modelled from the spec: \<open>oamap.util.slice2sss(index, length)\<close>, which is not among the
  sources. The specification calls it the "standard start/stop/step resolution", that of
  Python's \<open>slice.indices(length)\<close>: a missing step is 1 and a zero step a ValueError; a
  negative start or stop counts from the end; both are clipped to \<open>[0, length]\<close> for a
  positive step and to \<open>[-1, length - 1]\<close> for a negative one.
\<close>

definition standard_slice2sss ::
  "int option \<times> int option \<times> int option \<Rightarrow> int \<Rightarrow> error + int \<times> int \<times> int" where
  "standard_slice2sss sl n =
     (case sl of (a, b, c) \<Rightarrow>
        (let step = (case c of None \<Rightarrow> 1 | Some k \<Rightarrow> k)
         in if step = 0 then Inl (ValueError ''slice step cannot be zero'')
            else
              (let lower = (if step < 0 then -1 else 0);
                   upper = (if step < 0 then n - 1 else n);
                   start = (case a of
                              None \<Rightarrow> (if step < 0 then upper else lower)
                            | Some k \<Rightarrow> if k < 0 then max (k + n) lower else min k upper);
                   stop = (case b of
                             None \<Rightarrow> (if step < 0 then lower else upper)
                           | Some k \<Rightarrow> if k < 0 then max (k + n) lower else min k upper)
               in Inr (start, stop, step))))"

text \<open>
  The Dataset of the specification's example: a List of int64 with the offsets
  \<open>[0, 3, 7, 10]\<close>, three partitions.
\<close>

definition example_dataset :: "(unit, unit) dataset" where
  "example_dataset =
     \<lparr> ds_schema = List (Primitive ''int64'' [] False None None None) False None None None None,
       ds_backends = [], ds_prefix = ''object'', ds_delimiter = ''-'',
       ds_offsets = [0, 3, 7, 10] \<rparr>"

text \<open>
  What a resolved slice \<open>(start, stop, step)\<close> satisfies for \<open>n\<close> entries: the step is
  not zero, and start and stop are clipped and ordered in the direction of the step
  (\<open>stop\<close> may be \<open>-1\<close> when the step is negative).
\<close>

definition resolved :: "int \<Rightarrow> int \<times> int \<times> int \<Rightarrow> bool" where
  "resolved n sss =
     (case sss of (start, stop, step) \<Rightarrow>
        if step > 0 then 0 \<le> start \<and> start \<le> stop \<and> stop \<le> n
        else step < 0 \<and> -1 \<le> stop \<and> stop \<le> start \<and> start < n)"

text \<open>The entries a resolved slice runs over, from start towards stop.\<close>

definition positions :: "int \<times> int \<times> int \<Rightarrow> int set" where
  "positions sss =
     (case sss of (start, stop, step) \<Rightarrow> if step > 0 then {start..<stop} else {stop<..start})"

subsection \<open>Dataset construction\<close>

text \<open>
  The \<open>offsets\<close> argument of \<open>Dataset.__init__\<close>. An element of a Python iterable is an
  integer (\<open>numbers.Integral\<close>, which includes \<open>bool\<close> and the numpy integers) or some
  other object, given by its repr. The argument is an object that cannot be iterated, a
  sequence (a list, a tuple or another object that \<open>numpy.array\<close> reads item by item), an
  iterable that is no sequence (a generator, an iterator, a set, a dict), or a numpy
  array. A numpy array is one-dimensional with an integer or a floating-point dtype, or
  has another number of dimensions. A floating-point item is the real number it denotes,
  an infinity or NaN.
\<close>

datatype pyobj = PyInt int | PyOther string

datatype pyfloat = Finite real | PosInf | NegInf | NaN

datatype ndarray = IntArray "int list" | FloatArray "pyfloat list" | ArrayND

datatype offsets_arg = NotIterable | Sequence "pyobj list" | Iterator "pyobj list" | Array ndarray

text \<open>The integer an element is when \<open>isinstance(x, numbers.Integral)\<close> holds.\<close>

fun integral :: "pyobj \<Rightarrow> int option" where
  "integral (PyInt n) = Some n"
| "integral (PyOther r) = None"

text \<open>\<open>a <= b\<close> on floating-point items: every comparison with NaN is false.\<close>

fun float_le :: "pyfloat \<Rightarrow> pyfloat \<Rightarrow> bool" where
  "float_le NaN b = False"
| "float_le a NaN = False"
| "float_le NegInf b = True"
| "float_le a PosInf = True"
| "float_le PosInf b = False"
| "float_le a NegInf = False"
| "float_le (Finite x) (Finite y) = (x \<le> y)"

text \<open>
  \<open>all(isinstance(x, numbers.Integral) and x >= 0 for x in offsets)\<close> over the elements
  of an iterable: the integers they are, when every element passes.
\<close>

definition checked_elements :: "pyobj list \<Rightarrow> error + int list" where
  "checked_elements xs =
     (case those (map integral xs) of
        None \<Rightarrow> Inl (TypeError ''offsets must be an iterable of non-negative integers'')
      | Some ns \<Rightarrow>
          if \<not> list_all (\<lambda>n. n \<ge> 0) ns
          then Inl (TypeError ''offsets must be an iterable of non-negative integers'')
          else Inr ns)"

text \<open>
  \<open>numpy.array(offsets, dtype=numpy.int64)\<close> on a sequence of Python integers: an integer
  outside the int64 range raises OverflowError.
\<close>

definition int64_array :: "int list \<Rightarrow> error + ndarray" where
  "int64_array ns =
     (if list_all (\<lambda>n. - (2 ^ 63) \<le> n \<and> n < 2 ^ 63) ns
      then Inr (IntArray ns)
      else Inl (OverflowError ''Python int too large to convert to C long''))"

text \<open>
  The two checks on a one-dimensional array:
  \<open>len(offsets) < 2 or offsets[0] != 0\<close> and
  \<open>not numpy.all(offsets[:-1] <= offsets[1:])\<close>, for integer and for floating-point
  items.
\<close>

definition check_items :: "('a :: {zero, linorder}) list \<Rightarrow> error option" where
  "check_items items =
     (if length items < 2 \<or> items ! 0 \<noteq> 0
      then Some (ValueError ''offsets must have at least two items, and the first one must be zero'')
      else if \<not> list_all2 (\<le>) (butlast items) (tl items)
      then Some (ValueError ''offsets must be monotonically increasing'')
      else None)"

definition check_float_items :: "pyfloat list \<Rightarrow> error option" where
  "check_float_items items =
     (if length items < 2 \<or> items ! 0 \<noteq> Finite 0
      then Some (ValueError ''offsets must have at least two items, and the first one must be zero'')
      else if \<not> list_all2 float_le (butlast items) (tl items)
      then Some (ValueError ''offsets must be monotonically increasing'')
      else None)"

text \<open>The one-dimensional array that \<open>__init__\<close> keeps in \<open>self._offsets\<close>.\<close>

datatype offsets_array = Int64Offsets "int list" | FloatOffsets "pyfloat list"

text \<open>
  \<open>Dataset.__init__\<close>, as far as it decides whether construction succeeds; the result is
  the array stored in \<open>self._offsets\<close>. For a schema that is no List the message of the
  TypeError is formatted with \<open>schema.__repr__(indent="    ")\<close>, a keyword no
  \<open>__repr__\<close> of \<open>oamap/schema.py\<close> takes, so the TypeError raised is that of the call. An
  array argument skips the check of the elements. An iterable that is no sequence passes
  the check when its elements do, and then \<open>numpy.array(offsets, dtype=numpy.int64)\<close>
  raises TypeError, since numpy does not iterate it.
\<close>

definition Dataset_init :: "schema \<Rightarrow> offsets_arg \<Rightarrow> error + offsets_array" where
  "Dataset_init s_schema offsets =
     (case s_schema of
        List content nullable s_starts s_stops s_mask s_name \<Rightarrow>
          bind_err
            (case offsets of
               Array a \<Rightarrow> Inr a
             | NotIterable \<Rightarrow> Inl (TypeError ''offsets must be an iterable of non-negative integers'')
             | Sequence xs \<Rightarrow> bind_err (checked_elements xs) int64_array
             | Iterator xs \<Rightarrow>
                 bind_err (checked_elements xs) (\<lambda>ns.
                   Inl (TypeError ''int() argument must be a string or a number'')))
            (\<lambda>a. case a of
               ArrayND \<Rightarrow> Inl (ValueError ''offsets must be one-dimensional'')
             | IntArray items \<Rightarrow>
                 (case check_items items of Some e \<Rightarrow> Inl e | None \<Rightarrow> Inr (Int64Offsets items))
             | FloatArray items \<Rightarrow>
                 (case check_float_items items of Some e \<Rightarrow> Inl e | None \<Rightarrow> Inr (FloatOffsets items)))
      | _ \<Rightarrow> Inl (TypeError ''__repr__() got an unexpected keyword argument''))"

text \<open>
  \<open>numpartitions\<close> and \<open>numentries\<close> of the constructed object, read from the stored
  array: \<open>len(self._offsets) - 1\<close> and \<open>int(self._offsets[-1])\<close>. \<open>int\<close> truncates a
  floating-point item towards zero and raises OverflowError for an infinity, ValueError
  for NaN.
\<close>

fun py_int :: "pyfloat \<Rightarrow> error + int" where
  "py_int (Finite x) = Inr (if x \<ge> 0 then \<lfloor>x\<rfloor> else \<lceil>x\<rceil>)"
| "py_int PosInf = Inl (OverflowError ''cannot convert float infinity to integer'')"
| "py_int NegInf = Inl (OverflowError ''cannot convert float infinity to integer'')"
| "py_int NaN = Inl (ValueError ''cannot convert float NaN to integer'')"

fun stored_numpartitions :: "offsets_array \<Rightarrow> int" where
  "stored_numpartitions (Int64Offsets items) = int (length items) - 1"
| "stored_numpartitions (FloatOffsets items) = int (length items) - 1"

fun stored_numentries :: "offsets_array \<Rightarrow> error + int" where
  "stored_numentries (Int64Offsets items) = Inr (last items)"
| "stored_numentries (FloatOffsets items) = py_int (last items)"

text \<open>The exceptions that report a bad argument.\<close>

fun typed_error :: "error \<Rightarrow> bool" where
  "typed_error (TypeError m) = True"
| "typed_error (ValueError m) = True"
| "typed_error (OverflowError m) = True"
| "typed_error e = False"

text \<open>
  What the specification asks of floating-point offsets, in the order of \<open>float_le\<close>: at
  least two items, the first one zero, none less than the one before it.
\<close>

definition valid_float_offsets :: "pyfloat list \<Rightarrow> bool" where
  "valid_float_offsets fs =
     (2 \<le> length fs \<and> fs ! 0 = Finite 0 \<and> list_all2 float_le (butlast fs) (tl fs))"

subsection \<open>DataArrays.getall and DatasetArrays._toplevel\<close>

text \<open>
  An opened backend connection either has a \<open>getall\<close> method, from the requested roles
  to a dict of arrays (given as its items), or is subscripted by array name. A backend is
  its \<open>instantiate\<close> method, from the partition id to a connection.
\<close>

datatype active =
    WithGetall "role list \<Rightarrow> error + (role \<times> int list) list"
  | Subscripted "string \<Rightarrow> error + int list"

type_synonym backend = "int \<Rightarrow> active"

text \<open>
  \<open>DatasetArrays._toplevel(out, filtered)\<close>: the first occurrence of the starts role and of
  the stops role is deleted from \<open>filtered\<close> and bound in \<open>out\<close> to a one-element array.
  Roles are compared by their contents.
\<close>

definition toplevel ::
  "(backend, active) dataset_arrays \<Rightarrow> (role \<rightharpoonup> int list) \<Rightarrow> role list \<Rightarrow>
   (role \<rightharpoonup> int list) \<times> role list" where
  "toplevel da out filtered =
     (let (out1, filtered1) =
            (if da_startsrole da \<in> set filtered
             then (out(da_startsrole da \<mapsto> [0]), remove1 (da_startsrole da) filtered)
             else (out, filtered));
          (out2, filtered2) =
            (if da_stopsrole da \<in> set filtered1
             then (out1(da_stopsrole da \<mapsto> [da_numentries da]), remove1 (da_stopsrole da) filtered1)
             else (out1, filtered1))
      in (out2, filtered2))"

text \<open>\<open>out.update(d)\<close> for the items of a dict, and \<open>for x in roles: out[x] = active[str(x)]\<close>.\<close>

fun update_all :: "(role \<rightharpoonup> int list) \<Rightarrow> (role \<times> int list) list \<Rightarrow> (role \<rightharpoonup> int list)" where
  "update_all out [] = out"
| "update_all out ((k, v) # kvs) = update_all (out(k \<mapsto> v)) kvs"

fun subscript_all ::
  "(string \<Rightarrow> error + int list) \<Rightarrow> (role \<rightharpoonup> int list) \<Rightarrow> role list \<Rightarrow>
   error + (role \<rightharpoonup> int list)" where
  "subscript_all item out [] = Inr out"
| "subscript_all item out (x # xs) =
     bind_err (item (role_name x)) (\<lambda>v. subscript_all item (out(x \<mapsto> v)) xs)"

text \<open>
  The state of one \<open>getall\<close> call: the dict \<open>out\<close>, the connections \<open>self._active\<close>, and
  a log of what was asked of the backends: each namespace instantiated and each role
  requested from a namespace's connection, in order.
\<close>

datatype request = Instantiate string | Fetch string role

record getall_state =
  gs_out :: "role \<rightharpoonup> int list"
  gs_active :: "string \<rightharpoonup> active"
  gs_log :: "request list"

text \<open>
  The loop of \<open>DataArrays.getall(roles)\<close> over \<open>self._backends.items()\<close>, with the
  \<open>_toplevel\<close> of \<open>DatasetArrays\<close>. A connection without \<open>getall\<close> is subscripted for every
  role of \<open>roles\<close>, not of \<open>filtered\<close>.
\<close>

fun getall_loop ::
  "(backend, active) dataset_arrays \<Rightarrow> role list \<Rightarrow> (string \<times> backend) list \<Rightarrow>
   getall_state \<Rightarrow> error + getall_state" where
  "getall_loop da roles [] st = Inr st"
| "getall_loop da roles ((namespace, backend) # rest) st =
     (case toplevel da (gs_out st) (filter (\<lambda>x. role_namespace x = namespace) roles) of
        (out1, filtered) \<Rightarrow>
          if length filtered > 0 then
            (let (act, opened) =
                   (case gs_active st namespace of
                      None \<Rightarrow> (backend (da_partitionid da), [Instantiate namespace])
                    | Some a \<Rightarrow> (a, []));
                 active1 = (gs_active st)(namespace \<mapsto> act)
             in case act of
                  WithGetall g \<Rightarrow>
                    bind_err (g filtered) (\<lambda>d.
                      getall_loop da roles rest
                        \<lparr> gs_out = update_all out1 d, gs_active = active1,
                          gs_log = gs_log st @ opened @ map (Fetch namespace) filtered \<rparr>)
                | Subscripted item \<Rightarrow>
                    bind_err (subscript_all item out1 roles) (\<lambda>out2.
                      getall_loop da roles rest
                        \<lparr> gs_out = out2, gs_active = active1,
                          gs_log = gs_log st @ opened @ map (Fetch namespace) roles \<rparr>))
          else getall_loop da roles rest (st \<lparr> gs_out := out1 \<rparr>))"

definition getall ::
  "(backend, active) dataset_arrays \<Rightarrow> role list \<Rightarrow> error + getall_state" where
  "getall da roles =
     getall_loop da roles (da_backends da)
       \<lparr> gs_out = Map.empty, gs_active = da_active da, gs_log = [] \<rparr>"

text \<open>
  The array set of partition 1 of the example Dataset, over one backend of the empty
  namespace that holds the arrays of the whole dataset: once as a connection that is
  subscripted by name, once as a connection with a \<open>getall\<close> method.
\<close>

definition example_item :: "string \<Rightarrow> error + int list" where
  "example_item name =
     (if name = ''object-B'' then Inr [0, 3, 7]
      else if name = ''object-E'' then Inr [3, 7, 10]
      else if name = ''object-C'' then Inr [10, 20, 30, 40, 50, 60, 70, 80, 90, 100]
      else Inl (KeyError name))"

fun example_getall :: "role list \<Rightarrow> error + (role \<times> int list) list" where
  "example_getall [] = Inr []"
| "example_getall (x # xs) =
     bind_err (example_item (role_name x)) (\<lambda>v.
     bind_err (example_getall xs) (\<lambda>d. Inr ((x, v) # d)))"

definition example_arrays :: "active \<Rightarrow> (backend, active) dataset_arrays" where
  "example_arrays conn =
     \<lparr> da_backends = [([], \<lambda>partitionid. conn)], da_active = Map.empty, da_partitionid = 1,
       da_startsrole = \<lparr> role_kind = StartsRole, role_name = ''object-B'', role_namespace = [] \<rparr>,
       da_stopsrole = \<lparr> role_kind = StopsRole, role_name = ''object-E'', role_namespace = [] \<rparr>,
       da_numentries = 4 \<rparr>"

definition example_roles :: "role list" where
  "example_roles =
     [\<lparr> role_kind = StartsRole, role_name = ''object-B'', role_namespace = [] \<rparr>,
      \<lparr> role_kind = StopsRole, role_name = ''object-E'', role_namespace = [] \<rparr>,
      \<lparr> role_kind = DataRole, role_name = ''object-C'', role_namespace = [] \<rparr>]"

section \<open>arrowed/compiler.py: functions inserted into compiled code\<close>

text \<open>
  \<open>listget\<close> is compiled with the signature \<open>int32(int32[:], int32[:], int32, int32)\<close>:
  the arrays hold and the arguments are 32-bit signed integers (read by \<open>sint\<close>), the
  arithmetic on them is done in 64 bits, as numba types integer operations on a 64-bit
  platform, and the result is converted back to 32 bits.
\<close>

definition int64 :: "int \<Rightarrow> int" where
  "int64 x = signed_take_bit 63 x"

definition int32 :: "int \<Rightarrow> int" where
  "int32 x = signed_take_bit 31 x"


text \<open>\<open>listlen(begin, end, index)\<close>\<close>

definition listlen :: "32 word list \<Rightarrow> 32 word list \<Rightarrow> 32 word \<Rightarrow> error + int" where
  "listlen begin_arr end_arr idx =
     bind_err (np_getitem end_arr (sint idx)) (\<lambda>stop.
     bind_err (np_getitem begin_arr (sint idx)) (\<lambda>offset.
       Inr (int32 (int64 (sint stop - sint offset)))))"


section \<open>arrowed/compiler.py: the symbolic types of the transformation\<close>










subsection \<open>do\_Assign\<close>











section \<open>Properties of Dataset indexing\<close>

text \<open>
  C10. For every Dataset and every index that is neither an integer nor a slice,
  \<open>__getitem__\<close> returns None and raises nothing: no branch handles such an index.
\<close>

theorem getitem_other_returns_none:
  "getitem slice2sss ds (OtherIndex x) = Inr PyNone"
  by (simp add: getitem_def)

theorem getitem_other_returns_none_witness:
  "getitem (\<lambda>s n. Inl NotImplementedError) example_dataset (OtherIndex ''abc'') = Inr PyNone"
  by (rule getitem_other_returns_none)

lemma searchsorted_loop_spec:
  assumes "sorted a" "lo \<le> hi" "hi \<le> length a"
    "\<forall>i<lo. a ! i \<le> v" "\<forall>i. hi \<le> i \<and> i < length a \<longrightarrow> v < a ! i"
  shows "lo \<le> searchsorted_loop a v lo hi \<and> searchsorted_loop a v lo hi \<le> hi \<and>
         (\<forall>i. i < searchsorted_loop a v lo hi \<longrightarrow> a ! i \<le> v) \<and>
         (\<forall>i. searchsorted_loop a v lo hi \<le> i \<and> i < length a \<longrightarrow> v < a ! i)"
  using assms
proof (induction a v lo hi rule: searchsorted_loop.induct)
  case (1 a v lo hi)
  show ?case
  proof (cases "lo < hi")
    case False
    then have "searchsorted_loop a v lo hi = lo"
      by (subst searchsorted_loop.simps) simp
    moreover have "lo = hi" using False "1.prems" by simp
    ultimately show ?thesis using "1.prems" by simp
  next
    case True
    define mid where "mid = lo + (hi - lo) div 2"
    have mid: "lo \<le> mid" "mid < hi" using True by (auto simp: mid_def)
    show ?thesis
    proof (cases "a ! mid \<le> v")
      case le: True
      have below: "\<forall>i<mid + 1. a ! i \<le> v"
      proof (intro allI impI)
        fix i assume "i < mid + 1"
        then have "i \<le> mid" by simp
        moreover have "mid < length a" using mid "1.prems" by simp
        ultimately have "a ! i \<le> a ! mid" using \<open>sorted a\<close> by (simp add: sorted_iff_nth_mono)
        with le show "a ! i \<le> v" by simp
      qed
      have eq: "searchsorted_loop a v lo hi = searchsorted_loop a v (mid + 1) hi"
        using True le by (subst searchsorted_loop.simps) (simp add: mid_def Let_def)
      have "mid + 1 \<le> searchsorted_loop a v (mid + 1) hi \<and> searchsorted_loop a v (mid + 1) hi \<le> hi \<and>
         (\<forall>i. i < searchsorted_loop a v (mid + 1) hi \<longrightarrow> a ! i \<le> v) \<and>
         (\<forall>i. searchsorted_loop a v (mid + 1) hi \<le> i \<and> i < length a \<longrightarrow> v < a ! i)"
        using "1.IH"(1) [OF True mid_def le \<open>sorted a\<close> _ _ below] mid "1.prems" by simp
      with eq mid show ?thesis by simp
    next
      case gt: False
      have above: "\<forall>i. mid \<le> i \<and> i < length a \<longrightarrow> v < a ! i"
      proof (intro allI impI)
        fix i assume "mid \<le> i \<and> i < length a"
        then have "a ! mid \<le> a ! i" using \<open>sorted a\<close> by (simp add: sorted_iff_nth_mono)
        with gt show "v < a ! i" by simp
      qed
      have eq: "searchsorted_loop a v lo hi = searchsorted_loop a v lo mid"
        using True gt by (subst searchsorted_loop.simps) (simp add: mid_def Let_def)
      have "lo \<le> searchsorted_loop a v lo mid \<and> searchsorted_loop a v lo mid \<le> mid \<and>
         (\<forall>i. i < searchsorted_loop a v lo mid \<longrightarrow> a ! i \<le> v) \<and>
         (\<forall>i. searchsorted_loop a v lo mid \<le> i \<and> i < length a \<longrightarrow> v < a ! i)"
        using "1.IH"(2) [OF True mid_def gt \<open>sorted a\<close> _ _ _ above] mid "1.prems" by simp
      with eq mid show ?thesis by simp
    qed
  qed
qed


lemma searchsorted_right_spec:
  assumes "sorted a"
  shows "0 \<le> searchsorted_right a v \<and> searchsorted_right a v \<le> int (length a) \<and>
         (\<forall>i. int i < searchsorted_right a v \<longrightarrow> a ! i \<le> v) \<and>
         (\<forall>i. searchsorted_right a v \<le> int i \<and> i < length a \<longrightarrow> v < a ! i)"
  using searchsorted_loop_spec [of a 0 "length a" v] assms
  by (simp add: searchsorted_right_def)

lemma valid_offsets_last:
  assumes "valid_offsets offs"
  shows "last offs = offs ! (length offs - 1)"
proof -
  have "offs \<noteq> []" using assms by (auto simp: valid_offsets_def)
  then show ?thesis by (simp add: last_conv_nth)
qed

lemma searchsorted_partition:
  assumes v: "valid_offsets offs" and n: "0 \<le> n" "n < last offs"
  shows "\<exists>p. searchsorted_right offs n - 1 = int p \<and> p + 1 < length offs \<and>
              offs ! p \<le> n \<and> n < offs ! (p + 1) \<and>
              (\<forall>q < length offs. offs ! q \<le> n \<longrightarrow> q \<le> p)"
proof -
  have srt: "sorted offs" and len: "2 \<le> length offs" and z: "offs ! 0 = 0"
    using v by (auto simp: valid_offsets_def)
  define r where "r = searchsorted_right offs n"
  have spec: "0 \<le> r" "r \<le> int (length offs)"
    "\<And>i. int i < r \<Longrightarrow> offs ! i \<le> n"
    "\<And>i. r \<le> int i \<Longrightarrow> i < length offs \<Longrightarrow> n < offs ! i"
    using searchsorted_right_spec [OF srt, of n] by (auto simp: r_def)
  have r1: "1 \<le> r"
  proof (rule ccontr)
    assume "\<not> 1 \<le> r"
    then have "r \<le> int 0" by simp
    moreover have "0 < length offs" using len by linarith
    ultimately have "n < offs ! 0" by (rule spec(4))
    with z n show False by simp
  qed
  have r2: "r < int (length offs)"
  proof (rule ccontr)
    assume "\<not> r < int (length offs)"
    then have "int (length offs - 1) < r" using len by simp
    then have "offs ! (length offs - 1) \<le> n" by (rule spec(3))
    with n valid_offsets_last [OF v] show False by simp
  qed
  define p where "p = nat (r - 1)"
  have p: "r - 1 = int p" using r1 by (simp add: p_def)
  have "p + 1 < length offs" using r2 p by linarith
  moreover have "offs ! p \<le> n" using spec(3) [of p] p by simp
  moreover have "n < offs ! (p + 1)" using spec(4) [of "p + 1"] p \<open>p + 1 < length offs\<close> by simp
  moreover have "\<forall>q < length offs. offs ! q \<le> n \<longrightarrow> q \<le> p"
  proof (intro allI impI)
    fix q assume q: "q < length offs" "offs ! q \<le> n"
    show "q \<le> p"
    proof (rule ccontr)
      assume "\<not> q \<le> p"
      then have "r \<le> int q" using p by linarith
      then have "n < offs ! q" using q(1) by (rule spec(4))
      with q(2) show False by simp
    qed
  qed
  ultimately show ?thesis using p by (auto simp: r_def)
qed

lemma np_getitem_nat: "i < length a \<Longrightarrow> np_getitem a (int i) = Inr (a ! i)"
  by (simp add: np_getitem_def)

lemma arrays_nat:
  assumes "p + 1 < length (ds_offsets ds)"
  shows "arrays ds (int p) = Inl (AttributeError ''_get_starts'')"
  using assms by (simp add: arrays_def numpartitions_def)

text \<open>
  C3. The claim: for a Dataset with valid offsets and an integer index \<open>i\<close> with
  \<open>-numentries \<le> i < numentries\<close>, \<open>__getitem__\<close> normalizes \<open>i\<close>, resolves it to the
  rightmost partition \<open>p\<close> with \<open>offsets[p] \<le> n\<close> and to the local index, and delegates
  to the proxy of that partition. In the code the index is normalized and the binary
  search finds that partition (\<open>offsets[p] \<le> n < offsets[p+1]\<close>), but the array set of
  the partition is never built: \<open>arrays\<close> reads \<open>_get_starts\<close> from the List schema, which
  has no such attribute, so every index in range raises AttributeError. An index out of
  range raises IndexError, as claimed.
\<close>

theorem getitem_int_AttributeError:
  assumes "valid_offsets (ds_offsets ds)"
  shows "if - numentries ds \<le> i \<and> i < numentries ds
         then (\<exists>p. let n = (if i < 0 then i + numentries ds else i) in
                 p + 1 < length (ds_offsets ds) \<and>
                 ds_offsets ds ! p \<le> n \<and> n < ds_offsets ds ! (p + 1) \<and>
                 (\<forall>q < length (ds_offsets ds). ds_offsets ds ! q \<le> n \<longrightarrow> q \<le> p) \<and>
                 searchsorted_right (ds_offsets ds) n - 1 = int p \<and>
                 arrays ds (int p) = Inl (AttributeError ''_get_starts'') \<and>
                 getitem slice2sss ds (IntIndex i) = Inl (AttributeError ''_get_starts''))
         else getitem slice2sss ds (IntIndex i) = Inl (IndexError ''index out of range'')"
proof (cases "- numentries ds \<le> i \<and> i < numentries ds")
  case False
  then show ?thesis by (auto simp: getitem_def getitem_int_def Let_def)
next
  case True
  define n where "n = (if i < 0 then i + numentries ds else i)"
  have n: "0 \<le> n" "n < last (ds_offsets ds)"
    using True by (auto simp: n_def numentries_def)
  obtain p where p: "searchsorted_right (ds_offsets ds) n - 1 = int p" "p + 1 < length (ds_offsets ds)"
      "ds_offsets ds ! p \<le> n" "n < ds_offsets ds ! (p + 1)"
      "\<forall>q < length (ds_offsets ds). ds_offsets ds ! q \<le> n \<longrightarrow> q \<le> p"
    using searchsorted_partition [OF assms n] by blast
  note a = arrays_nat [OF p(2)]
  have norm: "(if i \<ge> 0 then i else i + numentries ds) = n" by (simp add: n_def)
  have off: "np_getitem (ds_offsets ds) (int p) = Inr (ds_offsets ds ! p)"
    using np_getitem_nat [of p "ds_offsets ds"] p(2) by simp
  have "getitem slice2sss ds (IntIndex i) = Inl (AttributeError ''_get_starts'')"
    using n by (simp add: getitem_def getitem_int_def norm p(1) off partition_of_def a
        bind_err_def numentries_def)
  then show ?thesis using True p a by (auto simp: n_def Let_def)
qed

theorem getitem_int_AttributeError_witness:
  "valid_offsets (ds_offsets example_dataset) \<and>
   - numentries example_dataset \<le> 5 \<and> 5 < numentries example_dataset \<and>
   getitem standard_slice2sss example_dataset (IntIndex 5) = Inl (AttributeError ''_get_starts'') \<and>
   getitem standard_slice2sss example_dataset (IntIndex (- 1)) = Inl (AttributeError ''_get_starts'') \<and>
   getitem standard_slice2sss example_dataset (IntIndex 10) = Inl (IndexError ''index out of range'')"
proof -
  have v: "valid_offsets (ds_offsets example_dataset)"
    by (simp add: example_dataset_def valid_offsets_def)
  have r: "- numentries example_dataset \<le> 5 \<and> 5 < numentries example_dataset"
    by (simp add: example_dataset_def numentries_def)
  have c: "getitem standard_slice2sss example_dataset (IntIndex 5) = Inl (AttributeError ''_get_starts'')"
    using getitem_int_AttributeError [OF v, of 5 standard_slice2sss] r by (auto simp: Let_def)
  have c': "getitem standard_slice2sss example_dataset (IntIndex (- 1)) = Inl (AttributeError ''_get_starts'')"
    using getitem_int_AttributeError [OF v, of "- 1" standard_slice2sss]
    by (auto simp: Let_def example_dataset_def numentries_def)
  have d: "getitem standard_slice2sss example_dataset (IntIndex 10) = Inl (IndexError ''index out of range'')"
    using getitem_int_AttributeError [OF v, of 10 standard_slice2sss]
    by (simp add: example_dataset_def numentries_def)
  from v r c c' d show ?thesis by blast
qed

lemma valid_offsets_nonneg:
  assumes "valid_offsets offs" "i < length offs"
  shows "0 \<le> offs ! i"
proof -
  have "sorted offs" "offs ! 0 = 0" using assms by (auto simp: valid_offsets_def)
  moreover from this assms(2) have "offs ! 0 \<le> offs ! i" by (intro sorted_nth_mono) auto
  ultimately show ?thesis by simp
qed

lemma clamped_partition:
  assumes v: "valid_offsets offs" and s: "-1 \<le> start" "start \<le> last offs"
  shows "\<exists>p. max 0 (min (searchsorted_right offs start - 1) (int (length offs) - 1 - 1)) = int p \<and>
              p + 1 < length offs \<and>
              (0 \<le> start \<longrightarrow> offs ! p \<le> start) \<and>
              (start < last offs \<longrightarrow> start < offs ! (p + 1)) \<and>
              (start < 0 \<longrightarrow> p = 0) \<and>
              (last offs \<le> start \<longrightarrow> offs ! (p + 1) = last offs) \<and>
              (\<forall>q. q + 1 < length offs \<and> offs ! q \<le> start \<and> start < offs ! (q + 1) \<longrightarrow> q = p)"
proof -
  have srt: "sorted offs" and len: "2 \<le> length offs" and z: "offs ! 0 = 0"
    using v by (auto simp: valid_offsets_def)
  define r where "r = searchsorted_right offs start"
  have spec: "0 \<le> r" "r \<le> int (length offs)"
    "\<And>i. int i < r \<Longrightarrow> offs ! i \<le> start"
    "\<And>i. r \<le> int i \<Longrightarrow> i < length offs \<Longrightarrow> start < offs ! i"
    using searchsorted_right_spec [OF srt, of start] by (auto simp: r_def)
  consider (neg) "start < 0" | (mid) "0 \<le> start" "start < last offs" | (top) "0 \<le> start" "start = last offs"
    using s by linarith
  then show ?thesis
  proof cases
    case neg
    have "r = 0"
    proof (rule ccontr)
      assume "r \<noteq> 0"
      then have "int 0 < r" using spec(1) by simp
      then have "offs ! 0 \<le> start" by (rule spec(3))
      with z neg show False by simp
    qed
    then have c: "max 0 (min (r - 1) (int (length offs) - 1 - 1)) = int 0" using len by simp
    have nn: "\<And>q. q < length offs \<Longrightarrow> 0 \<le> offs ! q" using valid_offsets_nonneg [OF v] by simp
    have "1 < length offs" using len by linarith
    then have "0 \<le> offs ! 1" by (rule nn)
    then have a: "start < offs ! (0 + 1)" using neg by simp
    have b: "\<forall>q. q + 1 < length offs \<and> offs ! q \<le> start \<and> start < offs ! (q + 1) \<longrightarrow> q = 0"
    proof (intro allI impI)
      fix q assume q: "q + 1 < length offs \<and> offs ! q \<le> start \<and> start < offs ! (q + 1)"
      then have "0 \<le> offs ! q" using nn [of q] by simp
      with q neg show "q = 0" by simp
    qed
    have d: "0 + 1 < length offs" using len by linarith
    have e: "0 \<le> start \<longrightarrow> offs ! 0 \<le> start" using neg by simp
    have f: "start < last offs \<longrightarrow> start < offs ! (0 + 1)" using a by simp
    have g: "start < 0 \<longrightarrow> (0::nat) = 0" by simp
    have "length offs - 1 < length offs" using len by linarith
    then have "0 \<le> offs ! (length offs - 1)" by (rule nn)
    then have h: "last offs \<le> start \<longrightarrow> offs ! (0 + 1) = last offs"
      using neg valid_offsets_last [OF v] by simp
    from c d e f g h b show ?thesis unfolding r_def by blast
  next
    case mid
    obtain p where p: "r - 1 = int p" "p + 1 < length offs" "offs ! p \<le> start"
       "start < offs ! (p + 1)" "\<forall>q < length offs. offs ! q \<le> start \<longrightarrow> q \<le> p"
      using searchsorted_partition [OF v mid] unfolding r_def by blast
    have uniq: "q = p" if q: "q + 1 < length offs" "offs ! q \<le> start" "start < offs ! (q + 1)" for q
    proof -
      have "q \<le> p" using p(5) q by simp
      moreover have "\<not> q < p"
      proof
        assume "q < p"
        then have "offs ! (q + 1) \<le> offs ! p" using srt p(2) by (simp add: sorted_iff_nth_mono)
        with q(3) p(3) show False by simp
      qed
      ultimately show ?thesis by simp
    qed
    have c: "max 0 (min (r - 1) (int (length offs) - 1 - 1)) = int p" using p(1,2) by simp
    have e: "0 \<le> start \<longrightarrow> offs ! p \<le> start" using p(3) by simp
    have f: "start < last offs \<longrightarrow> start < offs ! (p + 1)" using p(4) by simp
    have g: "start < 0 \<longrightarrow> p = 0" using mid by simp
    have h: "last offs \<le> start \<longrightarrow> offs ! (p + 1) = last offs" using mid by simp
    have b: "\<forall>q. q + 1 < length offs \<and> offs ! q \<le> start \<and> start < offs ! (q + 1) \<longrightarrow> q = p"
      using uniq by blast
    from c p(2) e f g h b show ?thesis unfolding r_def by blast
  next
    case top
    have lst: "last offs = offs ! (length offs - 1)" by (rule valid_offsets_last [OF v])
    have "r = int (length offs)"
    proof (rule ccontr)
      assume "r \<noteq> int (length offs)"
      then have "r \<le> int (length offs - 1)" using spec(2) len by simp
      moreover have "length offs - 1 < length offs" using len by linarith
      ultimately have "start < offs ! (length offs - 1)" by (rule spec(4))
      with top lst show False by simp
    qed
    then have m: "max 0 (min (r - 1) (int (length offs) - 1 - 1)) = int (length offs - 2)"
      using len by simp
    have le: "offs ! (length offs - 2) \<le> offs ! (length offs - 1)"
      using srt len by (simp add: sorted_iff_nth_mono)
    have uniq: "q = length offs - 2" if q: "q + 1 < length offs" "start < offs ! (q + 1)" for q
    proof -
      have "offs ! (q + 1) \<le> offs ! (length offs - 1)" using srt q(1) by (simp add: sorted_iff_nth_mono)
      with q(2) top lst show ?thesis by simp
    qed
    have d: "length offs - 2 + 1 < length offs" using len by linarith
    have i: "length offs - 2 + 1 = length offs - 1" using len by linarith
    then have e: "0 \<le> start \<longrightarrow> offs ! (length offs - 2) \<le> start" using le top lst by simp
    have f: "start < last offs \<longrightarrow> start < offs ! (length offs - 2 + 1)" using top by simp
    have g: "start < 0 \<longrightarrow> length offs - 2 = 0" using top by simp
    have h: "last offs \<le> start \<longrightarrow> offs ! (length offs - 2 + 1) = last offs" using i lst by simp
    have b: "\<forall>q. q + 1 < length offs \<and> offs ! q \<le> start \<and> start < offs ! (q + 1) \<longrightarrow> q = length offs - 2"
      using uniq by blast
    from m d e f g h b show ?thesis unfolding r_def by blast
  qed
qed

lemma clamped_in_range:
  assumes "2 \<le> length offs"
  shows "\<exists>p. max 0 (min r (int (length offs) - 1 - 1)) = int p \<and> p + 1 < length offs"
proof -
  define p where "p = nat (max 0 (min r (int (length offs) - 1 - 1)))"
  have "max 0 (min r (int (length offs) - 1 - 1)) = int p" by (simp add: p_def)
  moreover have "p + 1 < length offs" using assms by (simp add: p_def)
  ultimately show ?thesis by blast
qed

lemma getitem_sss_eval:
  assumes p: "max 0 (min (searchsorted_right (ds_offsets ds) start - 1) (numpartitions ds - 1)) = int p"
     "p + 1 < length (ds_offsets ds)"
  shows "getitem_sss ds (start, stop, step) =
     (if stop < ds_offsets ds ! p - 1 \<or> ds_offsets ds ! (p + 1) < stop
      then Inl (IndexError ''slice spans multiple partitions'')
      else Inl (AttributeError ''_get_starts''))"
proof -
  have a: "np_getitem (ds_offsets ds) (int p) = Inr (ds_offsets ds ! p)"
    using np_getitem_nat [of p "ds_offsets ds"] p(2) by simp
  have b: "np_getitem (ds_offsets ds) (int p + 1) = Inr (ds_offsets ds ! (p + 1))"
    using np_getitem_nat [of "p + 1" "ds_offsets ds"] p(2) by (simp add: add.commute)
  show ?thesis
    by (simp add: getitem_sss_def Let_def p(1) a b bind_err_def partition_of_def
        arrays_nat [OF p(2)])
qed

lemma getitem_slice_never_returns:
  assumes v: "valid_offsets (ds_offsets ds)"
  shows "\<exists>e. getitem slice2sss ds (SliceIndex a b c) = Inl e"
proof (cases "slice2sss (a, b, c) (numentries ds)")
  case (Inl e)
  then show ?thesis by (simp add: getitem_def bind_err_def)
next
  case (Inr sss)
  obtain start stop step where sss: "sss = (start, stop, step)" by (cases sss)
  have len: "2 \<le> length (ds_offsets ds)" using v by (simp add: valid_offsets_def)
  obtain p where p: "max 0 (min (searchsorted_right (ds_offsets ds) start - 1)
        (int (length (ds_offsets ds)) - 1 - 1)) = int p" "p + 1 < length (ds_offsets ds)"
    using clamped_in_range [OF len] by blast
  have "getitem_sss ds (start, stop, step) =
     (if stop < ds_offsets ds ! p - 1 \<or> ds_offsets ds ! (p + 1) < stop
      then Inl (IndexError ''slice spans multiple partitions'')
      else Inl (AttributeError ''_get_starts''))"
    using getitem_sss_eval [of ds start p stop step] p by (simp add: numpartitions_def)
  then have "\<exists>e. getitem_sss ds (start, stop, step) = Inl e"
    by (cases "stop < ds_offsets ds ! p - 1 \<or> ds_offsets ds ! (p + 1) < stop") (simp_all, blast+)
  then show ?thesis using Inr sss by (simp add: getitem_def bind_err_def)
qed

lemma getitem_slice_resolved:
  assumes v: "valid_offsets (ds_offsets ds)"
    and s: "slice2sss (a, b, c) (numentries ds) = Inr (start, stop, step)"
    and r: "resolved (numentries ds) (start, stop, step)"
  shows "if \<exists>q. q + 1 < length (ds_offsets ds) \<and>
               positions (start, stop, step) \<subseteq> {ds_offsets ds ! q ..< ds_offsets ds ! (q + 1)}
         then getitem slice2sss ds (SliceIndex a b c) = Inl (AttributeError ''_get_starts'')
         else getitem slice2sss ds (SliceIndex a b c) =
                Inl (IndexError ''slice spans multiple partitions'')"
proof -
  define offs where "offs = ds_offsets ds"
  have step: "step \<noteq> 0" using r by (auto simp: resolved_def split: if_splits)
  have bounds: "-1 \<le> start" "start \<le> last offs"
    using r by (auto simp: resolved_def numentries_def offs_def split: if_splits)
  obtain p where p: "max 0 (min (searchsorted_right offs start - 1) (int (length offs) - 1 - 1)) = int p"
      "p + 1 < length offs" "0 \<le> start \<longrightarrow> offs ! p \<le> start"
      "start < last offs \<longrightarrow> start < offs ! (p + 1)" "start < 0 \<longrightarrow> p = 0"
      "last offs \<le> start \<longrightarrow> offs ! (p + 1) = last offs"
      "\<forall>q. q + 1 < length offs \<and> offs ! q \<le> start \<and> start < offs ! (q + 1) \<longrightarrow> q = p"
    using clamped_partition [OF v [folded offs_def] bounds] by blast
  have lst: "last offs = offs ! (length offs - 1)"
    by (rule valid_offsets_last [OF v [folded offs_def]])
  have srt: "sorted offs" using v by (simp add: valid_offsets_def offs_def)
  have top: "offs ! (p + 1) \<le> last offs"
    unfolding lst using srt p(2) by (intro sorted_nth_mono) auto
  have nn: "0 \<le> offs ! p" "0 \<le> offs ! (p + 1)"
    using valid_offsets_nonneg [OF v [folded offs_def]] p(2) by auto
  have ev: "getitem slice2sss ds (SliceIndex a b c) =
     (if stop < offs ! p - 1 \<or> offs ! (p + 1) < stop
      then Inl (IndexError ''slice spans multiple partitions'')
      else Inl (AttributeError ''_get_starts''))"
    using getitem_sss_eval [of ds start p stop step] p(1,2)
    by (simp add: getitem_def s bind_err_def offs_def numpartitions_def)
  \<comment> \<open>the code accepts exactly when the range lies in partition p\<close>
  have acc: "(\<not> (stop < offs ! p - 1 \<or> offs ! (p + 1) < stop)) \<longleftrightarrow>
             positions (start, stop, step) \<subseteq> {offs ! p ..< offs ! (p + 1)}"
  proof (cases "step > 0")
    case True
    then have o: "0 \<le> start" "start \<le> stop" "stop \<le> last offs"
      using r by (auto simp: resolved_def numentries_def offs_def)
    have pos: "positions (start, stop, step) = {start..<stop}" using True by (simp add: positions_def)
    show ?thesis
    proof (cases "start = stop")
      case True
      then show ?thesis using pos o p(3,4,6) top by (cases "start < last offs") auto
    next
      case False
      then have "start < last offs" using o by simp
      then show ?thesis using pos o p(3,4) False by auto
    qed
  next
    case False
    then have o: "step < 0" "-1 \<le> stop" "stop \<le> start" "start < last offs"
      using r by (auto simp: resolved_def numentries_def offs_def)
    have pos: "positions (start, stop, step) = {stop<..start}" using False by (simp add: positions_def)
    show ?thesis
    proof (cases "start < 0")
      case True
      then have "start = -1" "stop = -1" "p = 0" using o bounds p(5) by auto
      then show ?thesis using pos nn v by (auto simp: valid_offsets_def offs_def)
    next
      case False
      show ?thesis
      proof
        assume "\<not> (stop < offs ! p - 1 \<or> offs ! (p + 1) < stop)"
        then show "positions (start, stop, step) \<subseteq> {offs ! p ..< offs ! (p + 1)}"
          using pos o p(3,4) False by auto
      next
        assume inside: "positions (start, stop, step) \<subseteq> {offs ! p ..< offs ! (p + 1)}"
        show "\<not> (stop < offs ! p - 1 \<or> offs ! (p + 1) < stop)"
        proof
          assume "stop < offs ! p - 1 \<or> offs ! (p + 1) < stop"
          then have low: "stop < offs ! p - 1" using o p(4) by linarith
          then have "stop + 1 \<in> {stop<..start}" using p(3) False by simp
          then have "stop + 1 \<in> {offs ! p ..< offs ! (p + 1)}" using inside pos by blast
          then have "offs ! p \<le> stop + 1" by simp
          with low show False by simp
        qed
      qed
    qed
  qed
  \<comment> \<open>a range inside some partition is inside partition p\<close>
  have only: "positions (start, stop, step) \<subseteq> {offs ! p ..< offs ! (p + 1)}"
    if q: "q + 1 < length offs" "positions (start, stop, step) \<subseteq> {offs ! q ..< offs ! (q + 1)}" for q
  proof (cases "positions (start, stop, step) = {}")
    case True
    then have "start = stop" using r by (auto simp: positions_def resolved_def split: if_splits)
    show ?thesis
    proof (cases "step > 0")
      case True
      then have "positions (start, stop, step) = {}" using \<open>start = stop\<close> by (simp add: positions_def)
      then show ?thesis by simp
    next
      case False
      then have "positions (start, stop, step) = {}" using \<open>start = stop\<close> by (simp add: positions_def)
      then show ?thesis by simp
    qed
  next
    case False
    then have "start \<in> positions (start, stop, step)"
      using r by (auto simp: positions_def resolved_def split: if_splits)
    then have "offs ! q \<le> start \<and> start < offs ! (q + 1)" using q(2) by auto
    then have "q = p" using p(7) q(1) by blast
    then show ?thesis using q(2) by simp
  qed
  show ?thesis
  proof (cases "\<exists>q. q + 1 < length offs \<and> positions (start, stop, step) \<subseteq> {offs ! q ..< offs ! (q + 1)}")
    case True
    then have inp: "positions (start, stop, step) \<subseteq> {offs ! p ..< offs ! (p + 1)}" using only by blast
    then have res: "getitem slice2sss ds (SliceIndex a b c) = Inl (AttributeError ''_get_starts'')"
      using ev acc by simp
    from True have ex: "\<exists>q. q + 1 < length (ds_offsets ds) \<and>
        positions (start, stop, step) \<subseteq> {ds_offsets ds ! q ..< ds_offsets ds ! (q + 1)}"
      unfolding offs_def .
    show ?thesis using ex res by (simp only: if_True)
  next
    case False
    then have "\<not> positions (start, stop, step) \<subseteq> {offs ! p ..< offs ! (p + 1)}" using p(2) by blast
    then have res: "getitem slice2sss ds (SliceIndex a b c) =
        Inl (IndexError ''slice spans multiple partitions'')"
      using ev acc by simp
    from False have nex: "\<not> (\<exists>q. q + 1 < length (ds_offsets ds) \<and>
        positions (start, stop, step) \<subseteq> {ds_offsets ds ! q ..< ds_offsets ds ! (q + 1)})"
      unfolding offs_def .
    show ?thesis using nex res by (simp only: if_False)
  qed
qed

text \<open>
  C4. The claim: \<open>__getitem__\<close> with a slice resolves it to \<open>(start, stop, step)\<close>; if the
  resolved range lies within a single partition it returns that partition's proxy with
  \<open>_whence\<close>, \<open>_stride\<close> and \<open>_length\<close> adjusted; if the range spans more than one
  partition it raises IndexError. In the code no slice returns a proxy, whatever the
  resolution yields: a range that spans partitions raises IndexError, as claimed, but a
  range within one partition passes that check and then raises AttributeError, since
  \<open>partition\<close> builds the array set with \<open>arrays\<close>, which reads \<open>_get_starts\<close> from the
  List schema.
\<close>

theorem getitem_slice_AttributeError:
  assumes "valid_offsets (ds_offsets ds)"
  shows "(\<exists>e. getitem slice2sss ds (SliceIndex a b c) = Inl e) \<and>
         (\<forall>start stop step.
            slice2sss (a, b, c) (numentries ds) = Inr (start, stop, step) \<and>
            resolved (numentries ds) (start, stop, step) \<longrightarrow>
              (if \<exists>q. q + 1 < length (ds_offsets ds) \<and>
                    positions (start, stop, step) \<subseteq> {ds_offsets ds ! q ..< ds_offsets ds ! (q + 1)}
               then getitem slice2sss ds (SliceIndex a b c) = Inl (AttributeError ''_get_starts'')
               else getitem slice2sss ds (SliceIndex a b c) =
                      Inl (IndexError ''slice spans multiple partitions'')))"
  using getitem_slice_never_returns [OF assms] getitem_slice_resolved [OF assms] by blast

theorem getitem_slice_AttributeError_witness:
  "valid_offsets (ds_offsets example_dataset) \<and>
   standard_slice2sss (Some 0, Some 3, None) (numentries example_dataset) = Inr (0, 3, 1) \<and>
   resolved (numentries example_dataset) (0, 3, 1) \<and>
   positions (0, 3, 1) \<subseteq> {ds_offsets example_dataset ! 0 ..< ds_offsets example_dataset ! (0 + 1)} \<and>
   getitem standard_slice2sss example_dataset (SliceIndex (Some 0) (Some 3) None) =
     Inl (AttributeError ''_get_starts'') \<and>
   standard_slice2sss (Some 2, Some 5, None) (numentries example_dataset) = Inr (2, 5, 1) \<and>
   getitem standard_slice2sss example_dataset (SliceIndex (Some 2) (Some 5) None) =
     Inl (IndexError ''slice spans multiple partitions'')"
proof -
  have v: "valid_offsets (ds_offsets example_dataset)"
    by (simp add: example_dataset_def valid_offsets_def)
  have s1: "standard_slice2sss (Some 0, Some 3, None) (numentries example_dataset) = Inr (0, 3, 1)"
    by (simp add: standard_slice2sss_def example_dataset_def numentries_def)
  have s2: "standard_slice2sss (Some 2, Some 5, None) (numentries example_dataset) = Inr (2, 5, 1)"
    by (simp add: standard_slice2sss_def example_dataset_def numentries_def)
  have r1: "resolved (numentries example_dataset) (0, 3, 1)"
    by (simp add: resolved_def example_dataset_def numentries_def)
  have r2: "resolved (numentries example_dataset) (2, 5, 1)"
    by (simp add: resolved_def example_dataset_def numentries_def)
  have p0: "positions (0, 3, 1) \<subseteq>
      {ds_offsets example_dataset ! 0 ..< ds_offsets example_dataset ! (0 + 1)}"
    by (simp add: example_dataset_def positions_def)
  have in0: "\<exists>q. q + 1 < length (ds_offsets example_dataset) \<and>
      positions (0, 3, 1) \<subseteq> {ds_offsets example_dataset ! q ..< ds_offsets example_dataset ! (q + 1)}"
    by (rule exI [of _ 0]) (simp add: example_dataset_def positions_def)
  note inst = getitem_slice_AttributeError [OF v, of standard_slice2sss, THEN conjunct2, rule_format]
  have "if \<exists>q. q + 1 < length (ds_offsets example_dataset) \<and>
      positions (0, 3, 1) \<subseteq> {ds_offsets example_dataset ! q ..< ds_offsets example_dataset ! (q + 1)}
    then getitem standard_slice2sss example_dataset (SliceIndex (Some 0) (Some 3) None) =
           Inl (AttributeError ''_get_starts'')
    else getitem standard_slice2sss example_dataset (SliceIndex (Some 0) (Some 3) None) =
           Inl (IndexError ''slice spans multiple partitions'')"
    by (rule inst [OF conjI [OF s1 r1]])
  then have c: "getitem standard_slice2sss example_dataset (SliceIndex (Some 0) (Some 3) None) =
     Inl (AttributeError ''_get_starts'')"
    using in0 by (simp only: if_True)
  have out: "\<not> (\<exists>q. q + 1 < length (ds_offsets example_dataset) \<and>
      positions (2, 5, 1) \<subseteq> {ds_offsets example_dataset ! q ..< ds_offsets example_dataset ! (q + 1)})"
  proof
    assume "\<exists>q. q + 1 < length (ds_offsets example_dataset) \<and>
      positions (2, 5, 1) \<subseteq> {ds_offsets example_dataset ! q ..< ds_offsets example_dataset ! (q + 1)}"
    then obtain q where q: "q + 1 < length (ds_offsets example_dataset)"
      "positions (2, 5, 1) \<subseteq> {ds_offsets example_dataset ! q ..< ds_offsets example_dataset ! (q + 1)}"
      by blast
    have "(2::int) \<in> positions (2, 5, 1)" "(4::int) \<in> positions (2, 5, 1)"
      by (simp_all add: positions_def)
    with q(2) have b: "ds_offsets example_dataset ! q \<le> 2" "4 < ds_offsets example_dataset ! (q + 1)"
      by auto
    from q(1) have "q = 0 \<or> q = 1 \<or> q = 2" by (auto simp: example_dataset_def)
    with b show False by (auto simp: example_dataset_def)
  qed
  have "if \<exists>q. q + 1 < length (ds_offsets example_dataset) \<and>
      positions (2, 5, 1) \<subseteq> {ds_offsets example_dataset ! q ..< ds_offsets example_dataset ! (q + 1)}
    then getitem standard_slice2sss example_dataset (SliceIndex (Some 2) (Some 5) None) =
           Inl (AttributeError ''_get_starts'')
    else getitem standard_slice2sss example_dataset (SliceIndex (Some 2) (Some 5) None) =
           Inl (IndexError ''slice spans multiple partitions'')"
    by (rule inst [OF conjI [OF s2 r2]])
  then have d: "getitem standard_slice2sss example_dataset (SliceIndex (Some 2) (Some 5) None) =
     Inl (IndexError ''slice spans multiple partitions'')"
    using out by (simp only: if_False)
  from v s1 r1 p0 c s2 d show ?thesis by blast
qed

section \<open>Properties of Dataset construction\<close>

lemma adjacent_iff_sorted:
  "list_all2 (\<le>) (butlast xs) (tl xs) \<longleftrightarrow> sorted (xs :: ('a :: linorder) list)"
proof (induction xs rule: induct_list012)
  case 1 show ?case by simp
next
  case (2 x) show ?case by simp
next
  case (3 x y zs)
  have "sorted (x # y # zs) \<longleftrightarrow> x \<le> y \<and> sorted (y # zs)" by auto
  then show ?case using 3 by simp
qed

lemma check_items_None: "check_items items = None \<longleftrightarrow> valid_offsets items"
  by (auto simp: check_items_def valid_offsets_def adjacent_iff_sorted)

lemma those_map_integral: "those (map integral xs) = Some ns \<longleftrightarrow> xs = map PyInt ns"
proof (induction xs arbitrary: ns)
  case Nil show ?case by auto
next
  case (Cons x xs)
  show ?case
  proof (cases x)
    case (PyInt n)
    then show ?thesis using Cons by (cases ns) (auto split: option.splits)
  next
    case (PyOther r)
    then show ?thesis by auto
  qed
qed

lemma checked_elements_Inr:
  "checked_elements xs = Inr ns \<longleftrightarrow> xs = map PyInt ns \<and> list_all (\<lambda>n. 0 \<le> n) ns"
proof (cases "those (map integral xs)")
  case None
  then have "xs \<noteq> map PyInt ns" using those_map_integral [of xs ns] by auto
  then show ?thesis using None by (simp add: checked_elements_def)
next
  case (Some ms)
  then have xs: "xs = map PyInt ms" by (simp add: those_map_integral)
  have inj: "map PyInt ms = map PyInt ns \<longleftrightarrow> ms = ns"
    by (simp add: inj_map_eq_map inj_on_def)
  show ?thesis using Some inj by (auto simp: checked_elements_def xs)
qed

lemma float_le_trans: "float_le a b \<Longrightarrow> float_le b c \<Longrightarrow> float_le a c"
  by (cases a; cases b; cases c) simp_all

lemma float_chain_nonneg:
  "float_le z x \<Longrightarrow> list_all2 float_le (butlast (x # xs)) (tl (x # xs)) \<Longrightarrow>
   list_all (float_le z) (x # xs)"
proof (induction xs arbitrary: x)
  case Nil
  then show ?case by simp
next
  case (Cons y ys)
  from Cons.prems(2) have xy: "float_le x y" and rest: "list_all2 float_le (butlast (y # ys)) (tl (y # ys))"
    by simp_all
  have "float_le z y" using Cons.prems(1) xy by (rule float_le_trans)
  then have "list_all (float_le z) (y # ys)" using rest by (rule Cons.IH)
  then show ?case using Cons.prems(1) by simp
qed

lemma valid_float_offsets_nonneg:
  assumes "valid_float_offsets fs"
  shows "list_all (float_le (Finite 0)) fs"
proof (cases fs)
  case Nil
  then show ?thesis by simp
next
  case (Cons x xs)
  then have "x = Finite 0" using assms by (simp add: valid_float_offsets_def)
  then have "float_le (Finite 0) x" by simp
  moreover have "list_all2 float_le (butlast fs) (tl fs)"
    using assms by (simp add: valid_float_offsets_def)
  then have "list_all2 float_le (butlast (x # xs)) (tl (x # xs))"
    unfolding Cons .
  ultimately show ?thesis unfolding Cons by (rule float_chain_nonneg)
qed

lemma check_float_items_None: "check_float_items items = None \<longleftrightarrow> valid_float_offsets items"
  by (auto simp: check_float_items_def valid_float_offsets_def)

lemma valid_offsets_all_nonneg:
  assumes "valid_offsets (ns :: int list)"
  shows "list_all (\<lambda>n. 0 \<le> n) ns"
  using valid_offsets_nonneg [OF assms] by (auto simp: list_all_length)

lemma Dataset_init_typed_error: "Dataset_init s arg = Inl e \<Longrightarrow> typed_error e"
  by (auto simp: Dataset_init_def bind_err_def int64_array_def check_items_def
      check_float_items_def checked_elements_def
      split: if_splits offsets_arg.splits ndarray.splits option.splits schema.splits sum.splits)

lemma Dataset_init_success:
  assumes "Dataset_init s arg = Inr st"
  shows "(\<exists>content nullable s_starts s_stops s_mask s_name.
            s = List content nullable s_starts s_stops s_mask s_name) \<and>
         ((\<exists>ns. arg = Sequence (map PyInt ns) \<and> st = Int64Offsets ns \<and> valid_offsets ns) \<or>
          (\<exists>ns. arg = Array (IntArray ns) \<and> st = Int64Offsets ns \<and> valid_offsets ns) \<or>
          (\<exists>fs. arg = Array (FloatArray fs) \<and> st = FloatOffsets fs \<and> valid_float_offsets fs))"
proof -
  obtain content nullable s_starts s_stops s_mask s_name
    where s: "s = List content nullable s_starts s_stops s_mask s_name"
    using assms by (cases s) (simp_all add: Dataset_init_def)
  have "(\<exists>ns. arg = Sequence (map PyInt ns) \<and> st = Int64Offsets ns \<and> valid_offsets ns) \<or>
        (\<exists>ns. arg = Array (IntArray ns) \<and> st = Int64Offsets ns \<and> valid_offsets ns) \<or>
        (\<exists>fs. arg = Array (FloatArray fs) \<and> st = FloatOffsets fs \<and> valid_float_offsets fs)"
  proof (cases arg)
    case NotIterable
    then show ?thesis using assms s by (simp add: Dataset_init_def bind_err_def)
  next
    case (Sequence xs)
    from assms s Sequence obtain ns where ns: "checked_elements xs = Inr ns"
      and rest: "bind_err (int64_array ns) (\<lambda>a. case a of
               ArrayND \<Rightarrow> Inl (ValueError ''offsets must be one-dimensional'')
             | IntArray items \<Rightarrow>
                 (case check_items items of Some e \<Rightarrow> Inl e | None \<Rightarrow> Inr (Int64Offsets items))
             | FloatArray items \<Rightarrow>
                 (case check_float_items items of Some e \<Rightarrow> Inl e | None \<Rightarrow> Inr (FloatOffsets items))) = Inr st"
      by (cases "checked_elements xs") (simp_all add: Dataset_init_def bind_err_def)
    from rest have "check_items ns = None" "st = Int64Offsets ns"
      by (auto simp: int64_array_def bind_err_def split: if_splits option.splits)
    then show ?thesis using ns Sequence by (simp add: checked_elements_Inr check_items_None)
  next
    case (Iterator xs)
    then show ?thesis using assms s
      by (cases "checked_elements xs") (simp_all add: Dataset_init_def bind_err_def)
  next
    case (Array a)
    show ?thesis
    proof (cases a)
      case (IntArray ns)
      then show ?thesis using assms s Array check_items_None [of ns]
        by (auto simp: Dataset_init_def bind_err_def split: option.splits)
    next
      case (FloatArray fs)
      then show ?thesis using assms s Array check_float_items_None [of fs]
        by (auto simp: Dataset_init_def bind_err_def split: option.splits)
    next
      case ArrayND
      then show ?thesis using assms s Array by (simp add: Dataset_init_def bind_err_def)
    qed
  qed
  with s show ?thesis by blast
qed

lemma three_halves: "(3 / 2 :: real) \<notin> \<int>"
proof
  assume "(3 / 2 :: real) \<in> \<int>"
  then obtain k :: int where "(3 / 2 :: real) = of_int k" by (auto elim: Ints_cases)
  then have "(3 :: real) = of_int (2 * k)" by simp
  then have "(3 :: int) = 2 * k" using of_int_eq_iff [of 3 "2 * k", where 'a = real] by simp
  then show False by presburger
qed

lemma py_int_of_int: "py_int (Finite (of_int k)) = Inr k"
  by simp

text \<open>
  C9. The claim: construction succeeds only if \<open>offsets\<close> is a one-dimensional sequence of
  non-negative integers, of length at least 2, starting with zero and never decreasing,
  and on success \<open>numentries\<close> equals \<open>offsets[-1]\<close>. It fails for a numpy array:
  \<open>__init__\<close> checks that the elements are integers only when \<open>offsets\<close> is not an array,
  so the floating-point array \<open>[0.0, 1.5]\<close> is accepted, with \<open>numentries\<close>
  \<open>int(1.5) = 1\<close>, and so is \<open>[0.0, inf]\<close>, whose \<open>numentries\<close> cannot be read.
\<close>

theorem Dataset_init_float_counterexample:
  "Dataset_init (List (Primitive ''int64'' [] False None None None) False None None None None)
     (Array (FloatArray [Finite 0, Finite (3 / 2)])) = Inr (FloatOffsets [Finite 0, Finite (3 / 2)]) \<and>
   (3 / 2 :: real) \<notin> \<int> \<and>
   stored_numentries (FloatOffsets [Finite 0, Finite (3 / 2)]) = Inr 1 \<and>
   Dataset_init (List (Primitive ''int64'' [] False None None None) False None None None None)
     (Array (FloatArray [Finite 0, PosInf])) = Inr (FloatOffsets [Finite 0, PosInf]) \<and>
   stored_numentries (FloatOffsets [Finite 0, PosInf]) =
     Inl (OverflowError ''cannot convert float infinity to integer'')"
proof -
  have "\<lfloor>3 / 2 :: real\<rfloor> = 1" by linarith
  then show ?thesis
    using three_halves by (simp add: Dataset_init_def bind_err_def check_float_items_def)
qed

text \<open>
  C9, as the code has it. Construction succeeds only if the schema is a List and
  \<open>offsets\<close> is a sequence of integers or a one-dimensional numpy array of integers or of
  floating-point numbers, with at least two items, the first one zero, none less than the
  one before it and hence none negative; the stored array holds those items. Every other
  argument raises TypeError, ValueError or OverflowError. On success \<open>numpartitions\<close> is
  \<open>len(offsets) - 1\<close> and \<open>numentries\<close> is \<open>int(offsets[-1])\<close>, which is \<open>offsets[-1]\<close>
  whenever that item is an integer.
\<close>

theorem Dataset_init_succeeds_only_if:
  "(\<forall>st. Dataset_init s arg = Inr st \<longrightarrow>
      (\<exists>content nullable s_starts s_stops s_mask s_name.
         s = List content nullable s_starts s_stops s_mask s_name) \<and>
      ((\<exists>ns. (arg = Sequence (map PyInt ns) \<or> arg = Array (IntArray ns)) \<and>
             st = Int64Offsets ns \<and> valid_offsets ns \<and> list_all (\<lambda>n. 0 \<le> n) ns \<and>
             stored_numpartitions st = int (length ns) - 1 \<and>
             stored_numentries st = Inr (last ns)) \<or>
       (\<exists>fs. arg = Array (FloatArray fs) \<and>
             st = FloatOffsets fs \<and> valid_float_offsets fs \<and> list_all (float_le (Finite 0)) fs \<and>
             stored_numpartitions st = int (length fs) - 1 \<and>
             stored_numentries st = py_int (last fs) \<and>
             (\<forall>k. last fs = Finite (of_int k) \<longrightarrow> stored_numentries st = Inr k)))) \<and>
   (\<forall>e. Dataset_init s arg = Inl e \<longrightarrow> typed_error e)"
proof -
  have ok: "(\<exists>content nullable s_starts s_stops s_mask s_name.
         s = List content nullable s_starts s_stops s_mask s_name) \<and>
      ((\<exists>ns. (arg = Sequence (map PyInt ns) \<or> arg = Array (IntArray ns)) \<and>
             st = Int64Offsets ns \<and> valid_offsets ns \<and> list_all (\<lambda>n. 0 \<le> n) ns \<and>
             stored_numpartitions st = int (length ns) - 1 \<and>
             stored_numentries st = Inr (last ns)) \<or>
       (\<exists>fs. arg = Array (FloatArray fs) \<and>
             st = FloatOffsets fs \<and> valid_float_offsets fs \<and> list_all (float_le (Finite 0)) fs \<and>
             stored_numpartitions st = int (length fs) - 1 \<and>
             stored_numentries st = py_int (last fs) \<and>
             (\<forall>k. last fs = Finite (of_int k) \<longrightarrow> stored_numentries st = Inr k)))"
    if st: "Dataset_init s arg = Inr st" for st
  proof -
    from Dataset_init_success [OF st]
    have l: "\<exists>content nullable s_starts s_stops s_mask s_name.
         s = List content nullable s_starts s_stops s_mask s_name"
      and c: "(\<exists>ns. arg = Sequence (map PyInt ns) \<and> st = Int64Offsets ns \<and> valid_offsets ns) \<or>
          (\<exists>ns. arg = Array (IntArray ns) \<and> st = Int64Offsets ns \<and> valid_offsets ns) \<or>
          (\<exists>fs. arg = Array (FloatArray fs) \<and> st = FloatOffsets fs \<and> valid_float_offsets fs)"
      by blast+
    from c consider
        (ints) ns where "arg = Sequence (map PyInt ns) \<or> arg = Array (IntArray ns)"
          "st = Int64Offsets ns" "valid_offsets ns"
      | (floats) fs where "arg = Array (FloatArray fs)" "st = FloatOffsets fs" "valid_float_offsets fs"
      by blast
    then show ?thesis
    proof cases
      case ints
      have "list_all (\<lambda>n. 0 \<le> n) ns" using ints(3) by (rule valid_offsets_all_nonneg)
      moreover have "stored_numpartitions st = int (length ns) - 1" "stored_numentries st = Inr (last ns)"
        using ints(2) by simp_all
      ultimately show ?thesis using l ints by blast
    next
      case floats
      have "list_all (float_le (Finite 0)) fs" using floats(3) by (rule valid_float_offsets_nonneg)
      moreover have "stored_numpartitions st = int (length fs) - 1"
        "stored_numentries st = py_int (last fs)"
        using floats(2) by simp_all
      moreover have "\<forall>k. last fs = Finite (of_int k) \<longrightarrow> stored_numentries st = Inr k"
        using floats(2) by simp
      ultimately show ?thesis using l floats by blast
    qed
  qed
  have err: "\<forall>e. Dataset_init s arg = Inl e \<longrightarrow> typed_error e"
    using Dataset_init_typed_error by blast
  from ok err show ?thesis by blast
qed

theorem Dataset_init_succeeds_only_if_witness:
  "Dataset_init (List (Primitive ''int64'' [] False None None None) False None None None None)
     (Sequence [PyInt 0, PyInt 3, PyInt 7, PyInt 10]) = Inr (Int64Offsets [0, 3, 7, 10]) \<and>
   valid_offsets [0, 3, 7, 10 :: int] \<and>
   stored_numpartitions (Int64Offsets [0, 3, 7, 10]) = 3 \<and>
   stored_numentries (Int64Offsets [0, 3, 7, 10]) = Inr 10 \<and>
   Dataset_init (List (Primitive ''int64'' [] False None None None) False None None None None)
     (Iterator [PyInt 0, PyInt 3, PyInt 7, PyInt 10]) =
     Inl (TypeError ''int() argument must be a string or a number'') \<and>
   Dataset_init (List (Primitive ''int64'' [] False None None None) False None None None None)
     (Sequence [PyInt 0, PyInt 3, PyInt 2]) =
     Inl (ValueError ''offsets must be monotonically increasing'') \<and>
   typed_error (ValueError ''offsets must be monotonically increasing'')"
proof -
  let ?s = "List (Primitive ''int64'' [] False None None None) False None None None None"
  have a: "Dataset_init ?s (Sequence [PyInt 0, PyInt 3, PyInt 7, PyInt 10]) =
      Inr (Int64Offsets [0, 3, 7, 10])"
    by (simp add: Dataset_init_def bind_err_def int64_array_def check_items_def checked_elements_def)
  note inst = Dataset_init_succeeds_only_if
    [of ?s "Sequence [PyInt 0, PyInt 3, PyInt 7, PyInt 10]", THEN conjunct1, rule_format, OF a]
  from inst have "\<exists>ns. Int64Offsets [0, 3, 7, 10] = Int64Offsets ns \<and> valid_offsets ns \<and>
      stored_numpartitions (Int64Offsets [0, 3, 7, 10]) = int (length ns) - 1 \<and>
      stored_numentries (Int64Offsets [0, 3, 7, 10]) = Inr (last ns)"
    by auto
  then have b: "valid_offsets [0, 3, 7, 10 :: int]"
    "stored_numpartitions (Int64Offsets [0, 3, 7, 10]) = 3"
    "stored_numentries (Int64Offsets [0, 3, 7, 10]) = Inr 10"
    by auto
  have i: "Dataset_init ?s (Iterator [PyInt 0, PyInt 3, PyInt 7, PyInt 10]) =
     Inl (TypeError ''int() argument must be a string or a number'')"
    by (simp add: Dataset_init_def bind_err_def checked_elements_def)
  have e: "Dataset_init ?s (Sequence [PyInt 0, PyInt 3, PyInt 2]) =
     Inl (ValueError ''offsets must be monotonically increasing'')"
    by (simp add: Dataset_init_def bind_err_def int64_array_def check_items_def checked_elements_def)
  then have t: "typed_error (ValueError ''offsets must be monotonically increasing'')"
    by (rule Dataset_init_succeeds_only_if [of ?s "Sequence [PyInt 0, PyInt 3, PyInt 2]",
        THEN conjunct2, THEN spec, THEN mp])
  from a b i e t show ?thesis by blast
qed

section \<open>Properties of the list subscript\<close>








section \<open>Properties of getall\<close>

text \<open>
  C8. The claim: a \<open>getall\<close> request that includes the root list's starts and stops roles
  binds them to \<open>[0]\<close> and \<open>[partition entry count]\<close> without fetching them from a
  backend. With a connection that has a \<open>getall\<close> method this is what happens; with a
  connection that is subscripted by name, the loop runs over \<open>roles\<close> instead of
  \<open>filtered\<close>, fetches both roles and overwrites the two arrays.
\<close>

theorem getall_subscripted_fetches_root_roles:
  "(\<exists>st. getall (example_arrays (Subscripted example_item)) example_roles = Inr st \<and>
      gs_out st (da_startsrole (example_arrays (Subscripted example_item))) = Some [0, 3, 7] \<and>
      gs_out st (da_stopsrole (example_arrays (Subscripted example_item))) = Some [3, 7, 10] \<and>
      gs_log st =
        [Instantiate [],
         Fetch [] \<lparr> role_kind = StartsRole, role_name = ''object-B'', role_namespace = [] \<rparr>,
         Fetch [] \<lparr> role_kind = StopsRole, role_name = ''object-E'', role_namespace = [] \<rparr>,
         Fetch [] \<lparr> role_kind = DataRole, role_name = ''object-C'', role_namespace = [] \<rparr>]) \<and>
   (\<exists>st. getall (example_arrays (WithGetall example_getall)) example_roles = Inr st \<and>
      gs_out st (da_startsrole (example_arrays (WithGetall example_getall))) = Some [0] \<and>
      gs_out st (da_stopsrole (example_arrays (WithGetall example_getall))) = Some [4] \<and>
      gs_log st =
        [Instantiate [],
         Fetch [] \<lparr> role_kind = DataRole, role_name = ''object-C'', role_namespace = [] \<rparr>])"
  by (simp add: getall_def example_arrays_def example_roles_def toplevel_def example_item_def
      bind_err_def Let_def)

section \<open>Properties of assignment in the transformation\<close>























section \<open>Properties of the derived array names\<close>














section \<open>Properties of Union and Tuple construction\<close>

text \<open>
  C5. The claim: constructing a Union or a Tuple from an iterable of Schemas, extending
  one, or assigning a Schema to an index of a Tuple succeeds and stores the supplied
  elements. In the code each of these operations reads a name that is not defined
  (\<open>value\<close> in \<open>_extend\<close>, \<open>item\<close> in \<open>Tuple.__setitem__\<close>) and raises NameError, whatever
  is supplied; \<open>Union.__setitem__\<close>, which tests its own parameter, stores the element.
\<close>

theorem Union_Tuple_operations_NameError:
  assumes "g ''value'' = None" "g ''item'' = None"
  shows "Union_init g (IterableValue (map SchemaValue ss)) nullable s_tags s_offsets s_mask s_name =
           Inl (NameError ''value'') \<and>
         Tuple_init g (IterableValue (map SchemaValue ss)) nullable s_mask s_name =
           Inl (NameError ''value'') \<and>
         Union_extend g self_list (IterableValue (map SchemaValue ss)) = Inl (NameError ''value'') \<and>
         Tuple_extend g self_list (IterableValue (map SchemaValue ss)) = Inl (NameError ''value'') \<and>
         Tuple_setitem g self_items i (SchemaValue s) = Inl (NameError ''item'') \<and>
         (0 \<le> i \<and> i < int (length self_list) \<longrightarrow>
            Union_setitem self_list i (SchemaValue s) = Inr (self_list [nat i := s]))"
  using assms
  by (simp add: Union_init_def Tuple_init_def Union_extend_def Tuple_extend_def Union_extend_start_def
      Tuple_extend_start_def Tuple_setitem_def Union_setitem_def list_setitem_def load_global_def
      bind_err_def)

theorem Union_Tuple_operations_NameError_witness:
  "schema_module_globals ''value'' = None \<and> schema_module_globals ''item'' = None \<and>
   Union_init schema_module_globals
     (IterableValue [SchemaValue (Primitive ''int64'' [] False None None None)])
     False None None None None = Inl (NameError ''value'') \<and>
   Tuple_init schema_module_globals
     (IterableValue [SchemaValue (Primitive ''int64'' [] False None None None)])
     False None None = Inl (NameError ''value'') \<and>
   Tuple_setitem schema_module_globals [SchemaValue (Primitive ''int64'' [] False None None None)] 0
     (SchemaValue (Primitive ''float64'' [] False None None None)) = Inl (NameError ''item'')"
proof -
  have g: "schema_module_globals ''value'' = None" "schema_module_globals ''item'' = None"
    by (simp_all add: schema_module_globals_def)
  note inst = Union_Tuple_operations_NameError [OF g,
      of "[Primitive ''int64'' [] False None None None]" False None None None None
         "[Primitive ''int64'' [] False None None None]"
         "[SchemaValue (Primitive ''int64'' [] False None None None)]" 0
         "Primitive ''float64'' [] False None None None"]
  from g inst show ?thesis by simp
qed

section \<open>Properties of printing\<close>

lemma bind_res_None [simp]: "bind_res None f = None"
  by (simp add: bind_res_def)

lemma record_cycle_nodes:
  "record_cycle 0 = RecordNode [(''a'', 1)] False None"
  "record_cycle 1 = ListNode 0 False None None None"
  "record_cycle (Suc 0) = ListNode 0 False None None None"
  by (simp_all add: record_cycle_def)

lemma labels_of_record_cycle_1:
  "labels_of k record_cycle 1 = None \<or> labels_of k record_cycle 1 = Some (Inr [1])"
proof -
  consider "k = 0" | "k = Suc 0" | "k = Suc (Suc 0)" | j where "k = Suc (Suc (Suc j))"
    by (metis not0_implies_Suc)
  then show ?thesis
    by cases (simp_all add: labels_of_def record_cycle_nodes bind_res_def)
qed

lemma labels_of_record_cycle_0:
  "labels_of k record_cycle 0 = None \<or> labels_of k record_cycle 0 = Some (Inr [0])"
proof -
  consider "k = 0" | "k = Suc 0" | "k = Suc (Suc 0)" | j where "k = Suc (Suc (Suc j))"
    by (metis not0_implies_Suc)
  then show ?thesis
    by cases (simp_all add: labels_of_def record_cycle_nodes bind_res_def)
qed

lemma repr_field_diverges: "repr_node k record_cycle 1 None = None"
proof (induction k rule: less_induct)
  case (less k)
  show ?case
  proof (cases k)
    case 0
    then show ?thesis by simp
  next
    case (Suc m)
    from labels_of_record_cycle_1 [of m] show ?thesis
    proof
      assume "labels_of m record_cycle 1 = None"
      then show ?thesis using Suc by simp
    next
      assume l: "labels_of m record_cycle 1 = Some (Inr [1])"
      have inner: "repr_node m record_cycle 0 (Some ([1], {1})) = None"
      proof (cases m)
        case 0
        then show ?thesis by simp
      next
        case j: (Suc j)
        have "repr_node j record_cycle 1 None = None"
          using less.IH [of j] Suc j by simp
        then show ?thesis
          using j by (simp add: record_cycle_nodes label_of_def bind_res_def)
      qed
      show ?thesis
        using Suc l inner by (simp add: record_cycle_nodes label_of_def bind_res_def)
    qed
  qed
qed

lemma repr_root_diverges: "repr_node k record_cycle 0 None = None"
proof (cases k)
  case 0
  then show ?thesis by simp
next
  case (Suc m)
  from labels_of_record_cycle_0 [of m] show ?thesis
  proof
    assume "labels_of m record_cycle 0 = None"
    then show ?thesis using Suc by simp
  next
    assume l: "labels_of m record_cycle 0 = Some (Inr [0])"
    show ?thesis
      using Suc l repr_field_diverges [of m]
      by (simp add: record_cycle_nodes label_of_def bind_res_def)
  qed
qed

text \<open>
  C2. The claim: for a schema with an identity cycle, \<open>__repr__\<close> of the root terminates
  and prints a revisited node as its numbered label, for cycles through every variant.
  For a cycle through a Record the recursion does not end, whatever the fuel: a Record
  prints its fields with \<open>repr(x)\<close>, which starts again without \<open>labels\<close> and \<open>shown\<close>.
  A cycle through a List alone prints \<open>#0: List(#0)\<close>; a cycle through a Tuple raises
  TypeError, since the Tuple met again returns None.
\<close>

theorem repr_record_cycle_diverges:
  "(\<forall>fuel. repr_schema fuel record_cycle 0 = None) \<and>
   repr_schema 3 list_cycle 0 = Some (Inr ''#0: List(#0)'') \<and>
   repr_schema 4 tuple_cycle 0 =
     Some (Inl (TypeError ''sequence item: expected string, NoneType found''))"
proof -
  have a: "\<forall>fuel. repr_schema fuel record_cycle 0 = None"
    by (simp add: repr_schema_def repr_root_diverges)
  have b: "repr_schema 3 list_cycle 0 = Some (Inr ''#0: List(#0)'')"
    by code_simp
  have c: "repr_schema 4 tuple_cycle 0 =
     Some (Inl (TypeError ''sequence item: expected string, NoneType found''))"
    by code_simp
  from a b c show ?thesis by blast
qed

end
